theory Spec2Isabelle
  imports Complex_Main
begin

section \<open>Strings and numbers of the engine\<close>

text \<open>
  The impact inference engine of \<^verbatim>\<open>src/lib/webScraper.ts\<close> (class
  \<^verbatim>\<open>AIAnalysisEngine\<close>) works on JavaScript strings and numbers.

  \<^item> A text is a \<open>string\<close>: a list of 8-bit characters. ASCII characters are what they
    are in JavaScript; a character above 127 is a caseless non-word character.
  \<^item> A JavaScript number is an exact rational (\<open>number\<close>): every double is a rational,
    and the arithmetic of the engine is idealised to exact arithmetic. The one place
    where the engine produces \<^verbatim>\<open>NaN\<close> (a percentage of zero stocks) is modelled
    as a branch of its own.
\<close>

type_synonym number = rat

text \<open>\<^verbatim>\<open>toLowerCase\<close> maps the 26 capital letters and leaves every other character.\<close>

definition toLowerChar :: "char \<Rightarrow> char" where
  "toLowerChar c =
     (case map_of (zip ''ABCDEFGHIJKLMNOPQRSTUVWXYZ'' ''abcdefghijklmnopqrstuvwxyz'') c of
        Some l \<Rightarrow> l
      | None \<Rightarrow> c)"

definition toLowerCase :: "string \<Rightarrow> string" where
  "toLowerCase s = map toLowerChar s"

fun startsWith :: "string \<Rightarrow> string \<Rightarrow> bool" where
  "startsWith cs [] = True"
| "startsWith [] (k # ks) = False"
| "startsWith (c # cs) (k # ks) = (c = k \<and> startsWith cs ks)"

text \<open>\<^verbatim>\<open>text.includes(keyword)\<close>: the keyword occurs somewhere as a contiguous substring.\<close>

fun str_includes :: "string \<Rightarrow> string \<Rightarrow> bool" where
  "str_includes [] keyword = (keyword = [])"
| "str_includes (c # cs) keyword = (startsWith (c # cs) keyword \<or> str_includes cs keyword)"

text \<open>\<^verbatim>\<open>s.split(' ')\<close>: the pieces between single spaces, empty pieces included.\<close>

fun split_space :: "string \<Rightarrow> string list" where
  "split_space [] = [[]]"
| "split_space (c # cs) =
     (if c = CHR '' '' then [] # split_space cs
      else (case split_space cs of [] \<Rightarrow> [[c]] | w # ws \<Rightarrow> (c # w) # ws))"

text \<open>\<^verbatim>\<open>keywords.filter(keyword => text.includes(keyword)).length\<close>\<close>

definition matched :: "string list \<Rightarrow> string \<Rightarrow> string list" where
  "matched keywords text = filter (\<lambda>keyword. str_includes text keyword) keywords"

definition clamp :: "number \<Rightarrow> number \<Rightarrow> number \<Rightarrow> number" where
  "clamp lo hi x = max lo (min hi x)"

text \<open>\<^verbatim>\<open>Math.round\<close> rounds to the nearest integer, a half towards plus infinity.\<close>

definition Math_round :: "number \<Rightarrow> int" where
  "Math_round x = \<lfloor>x + 1 / 2\<rfloor>"

section \<open>Reference data\<close>

record company =
  name :: string
  sector :: string
  marketCap :: number

definition COMPANY_DATABASE :: "(string \<times> company) list" where
  "COMPANY_DATABASE =
    [(''AAPL'', \<lparr>name = ''Apple Inc.'', sector = ''Technology'', marketCap = 3000000000000\<rparr>),
     (''MSFT'', \<lparr>name = ''Microsoft Corporation'', sector = ''Technology'', marketCap = 2800000000000\<rparr>),
     (''GOOGL'', \<lparr>name = ''Alphabet Inc.'', sector = ''Technology'', marketCap = 1700000000000\<rparr>),
     (''AMZN'', \<lparr>name = ''Amazon.com Inc.'', sector = ''Consumer Discretionary'', marketCap = 1500000000000\<rparr>),
     (''TSLA'', \<lparr>name = ''Tesla Inc.'', sector = ''Consumer Discretionary'', marketCap = 800000000000\<rparr>),
     (''META'', \<lparr>name = ''Meta Platforms Inc.'', sector = ''Technology'', marketCap = 750000000000\<rparr>),
     (''NVDA'', \<lparr>name = ''NVIDIA Corporation'', sector = ''Technology'', marketCap = 1800000000000\<rparr>),
     (''JPM'', \<lparr>name = ''JPMorgan Chase & Co.'', sector = ''Financial Services'', marketCap = 450000000000\<rparr>),
     (''JNJ'', \<lparr>name = ''Johnson & Johnson'', sector = ''Healthcare'', marketCap = 400000000000\<rparr>),
     (''V'', \<lparr>name = ''Visa Inc.'', sector = ''Financial Services'', marketCap = 500000000000\<rparr>),
     (''PG'', \<lparr>name = ''Procter & Gamble Co.'', sector = ''Consumer Staples'', marketCap = 350000000000\<rparr>),
     (''UNH'', \<lparr>name = ''UnitedHealth Group Inc.'', sector = ''Healthcare'', marketCap = 480000000000\<rparr>),
     (''HD'', \<lparr>name = ''The Home Depot Inc.'', sector = ''Consumer Discretionary'', marketCap = 320000000000\<rparr>),
     (''MA'', \<lparr>name = ''Mastercard Inc.'', sector = ''Financial Services'', marketCap = 380000000000\<rparr>),
     (''BAC'', \<lparr>name = ''Bank of America Corp.'', sector = ''Financial Services'', marketCap = 280000000000\<rparr>)]"

definition SECTOR_KEYWORDS :: "(string \<times> string list) list" where
  "SECTOR_KEYWORDS =
    [(''Technology'', [''tech'', ''software'', ''ai'', ''artificial intelligence'', ''cloud'',
        ''digital'', ''innovation'', ''semiconductor'', ''chip'']),
     (''Healthcare'', [''health'', ''medical'', ''pharmaceutical'', ''drug'', ''biotech'',
        ''clinical'', ''fda'', ''treatment'']),
     (''Financial Services'', [''bank'', ''financial'', ''credit'', ''loan'', ''interest rate'',
        ''fed'', ''monetary'', ''payment'']),
     (''Consumer Discretionary'', [''retail'', ''consumer'', ''shopping'', ''e-commerce'',
        ''automotive'', ''electric vehicle'']),
     (''Consumer Staples'', [''food'', ''beverage'', ''household'', ''essential'', ''grocery'']),
     (''Energy'', [''oil'', ''gas'', ''energy'', ''renewable'', ''solar'', ''wind'', ''petroleum'']),
     (''Industrials'', [''manufacturing'', ''industrial'', ''aerospace'', ''defense'',
        ''transportation'']),
     (''Materials'', [''mining'', ''metals'', ''chemicals'', ''materials'', ''commodities'']),
     (''Real Estate'', [''real estate'', ''property'', ''reit'', ''housing'', ''construction'']),
     (''Utilities'', [''utility'', ''electric'', ''power'', ''water'', ''gas utility''])]"

definition SENTIMENT_KEYWORDS_positive :: "(string \<times> string list) list" where
  "SENTIMENT_KEYWORDS_positive =
    [(''strong'', [''breakthrough'', ''record'', ''surge'', ''soar'', ''rally'', ''boom'',
        ''exceptional'', ''outstanding'']),
     (''moderate'', [''growth'', ''increase'', ''rise'', ''gain'', ''improve'', ''positive'',
        ''strong'', ''beat'']),
     (''mild'', [''stable'', ''steady'', ''maintain'', ''hold'', ''continue''])]"

definition SENTIMENT_KEYWORDS_negative :: "(string \<times> string list) list" where
  "SENTIMENT_KEYWORDS_negative =
    [(''strong'', [''crash'', ''plunge'', ''collapse'', ''disaster'', ''crisis'', ''bankruptcy'',
        ''scandal'']),
     (''moderate'', [''decline'', ''fall'', ''drop'', ''loss'', ''weak'', ''concern'', ''worry'',
        ''miss'']),
     (''mild'', [''caution'', ''uncertainty'', ''challenge'', ''pressure'', ''slow''])]"

text \<open>\<^verbatim>\<open>SECTOR_KEYWORDS[sector] || []\<close>\<close>

definition sector_keywords :: "string \<Rightarrow> string list" where
  "sector_keywords s = (case map_of SECTOR_KEYWORDS s of Some ks \<Rightarrow> ks | None \<Rightarrow> [])"

section \<open>Sentiment analyzer\<close>

record MarketSentiment =
  score :: number
  label :: string
  confidence :: number

definition intensity_weight :: "string \<Rightarrow> nat" where
  "intensity_weight intensity =
     (if intensity = ''strong'' then 3 else if intensity = ''moderate'' then 2 else 1)"

text \<open>
  One of the two loops of \<^verbatim>\<open>analyzeSentiment\<close> over the tiers of a polarity; the
  accumulator is the pair of \<^verbatim>\<open>sentimentScore\<close> and \<^verbatim>\<open>totalMatches\<close>, and
  \<open>sign\<close> is 1 for the loop that adds and -1 for the loop that subtracts.
\<close>

fun sentiment_tiers ::
  "int \<Rightarrow> (string \<times> string list) list \<Rightarrow> string \<Rightarrow> int \<times> nat \<Rightarrow> int \<times> nat" where
  "sentiment_tiers sign [] text acc = acc"
| "sentiment_tiers sign ((intensity, keywords) # rest) text (sentimentScore, totalMatches) =
     (let matches = length (matched keywords text) in
      if matches > 0
      then sentiment_tiers sign rest text
             (sentimentScore + sign * int (matches * intensity_weight intensity),
              totalMatches + matches)
      else sentiment_tiers sign rest text (sentimentScore, totalMatches))"

definition sentiment_label :: "number \<Rightarrow> string" where
  "sentiment_label normalizedScore =
     (if normalizedScore > 3 / 10 then ''Very Positive''
      else if normalizedScore > 1 / 10 then ''Positive''
      else if normalizedScore > - (1 / 10) then ''Neutral''
      else if normalizedScore > - (3 / 10) then ''Negative''
      else ''Very Negative'')"

definition analyzeSentiment :: "string \<Rightarrow> MarketSentiment" where
  "analyzeSentiment text =
     (let (sentimentScore, totalMatches) =
            sentiment_tiers (- 1) SENTIMENT_KEYWORDS_negative text
              (sentiment_tiers 1 SENTIMENT_KEYWORDS_positive text (0, 0));
          normalizedScore =
            (if totalMatches > 0
             then max (- 1) (min 1 (of_int sentimentScore / (of_nat totalMatches * 2)))
             else 0);
          confidence = min (95 / 100) (max (3 / 10) (of_nat totalMatches * (1 / 10) + 1 / 2))
      in \<lparr>score = (normalizedScore + 1) / 2,
          label = sentiment_label normalizedScore,
          confidence = confidence\<rparr>)"

section \<open>Regular expressions of the engine\<close>

text \<open>
  The engine builds regular expressions from tickers and company-name words with
  \<^verbatim>\<open>new RegExp(pattern, 'g')\<close>, which throws on a malformed pattern. The model covers
  the fragment such patterns can fall in: literal characters, the wildcard \<^verbatim>\<open>.\<close>,
  the word boundary \<^verbatim>\<open>\b\<close> and the escaped dollar \<^verbatim>\<open>\$\<close>. A pattern with any other
  syntax character is the exception \<open>RegExpError\<close>.
\<close>

datatype error = RegExpError string

datatype rx_item = Lit char | AnyChar | WordBoundary

definition backslash :: char where
  "backslash = CHR 0x5C"

definition syntax_characters :: "char list" where
  "syntax_characters = ''^$.*+?()[]{}|/'' @ [backslash]"

definition rx_cons :: "rx_item \<Rightarrow> error + rx_item list \<Rightarrow> error + rx_item list" where
  "rx_cons i r = (case r of Inl e \<Rightarrow> Inl e | Inr is \<Rightarrow> Inr (i # is))"

fun RegExp_new :: "string \<Rightarrow> error + rx_item list" where
  "RegExp_new [] = Inr []"
| "RegExp_new [c] =
     (if c = CHR ''.'' then Inr [AnyChar]
      else if c \<in> set syntax_characters then Inl (RegExpError [c])
      else Inr [Lit c])"
| "RegExp_new (c # d # ds) =
     (if c = backslash then
        (if d = CHR ''b'' then rx_cons WordBoundary (RegExp_new ds)
         else if d = CHR ''$'' then rx_cons (Lit d) (RegExp_new ds)
         else Inl (RegExpError [c, d]))
      else if c = CHR ''.'' then rx_cons AnyChar (RegExp_new (d # ds))
      else if c \<in> set syntax_characters then Inl (RegExpError [c])
      else rx_cons (Lit c) (RegExp_new (d # ds)))"

text \<open>\<^verbatim>\<open>\w\<close> is \<^verbatim>\<open>[A-Za-z0-9_]\<close>.\<close>

definition isWordChar :: "char \<Rightarrow> bool" where
  "isWordChar c =
     (c \<in> set (''ABCDEFGHIJKLMNOPQRSTUVWXYZ'' @ ''abcdefghijklmnopqrstuvwxyz''
                 @ ''0123456789'' @ ''_''))"

definition isLineTerminator :: "char \<Rightarrow> bool" where
  "isLineTerminator c = (c = CHR 0x0A \<or> c = CHR 0x0D)"

text \<open>
  \<open>prev\<close> is the character before the position (\<open>None\<close> at the start of the text),
  \<open>cs\<close> the text from the position on.
\<close>

definition atWordBoundary :: "char option \<Rightarrow> string \<Rightarrow> bool" where
  "atWordBoundary prev cs =
     ((case prev of None \<Rightarrow> False | Some p \<Rightarrow> isWordChar p)
      \<noteq> (case cs of [] \<Rightarrow> False | c # _ \<Rightarrow> isWordChar c))"

text \<open>The length of the match of the pattern at a position, when there is one.\<close>

fun match_here :: "rx_item list \<Rightarrow> char option \<Rightarrow> string \<Rightarrow> nat option" where
  "match_here [] prev cs = Some 0"
| "match_here (WordBoundary # r) prev cs =
     (if atWordBoundary prev cs then match_here r prev cs else None)"
| "match_here (Lit k # r) prev [] = None"
| "match_here (Lit k # r) prev (c # cs) =
     (if c = k then map_option Suc (match_here r (Some c) cs) else None)"
| "match_here (AnyChar # r) prev [] = None"
| "match_here (AnyChar # r) prev (c # cs) =
     (if isLineTerminator c then None else map_option Suc (match_here r (Some c) cs))"

text \<open>
  \<^verbatim>\<open>(text.match(re) || []).length\<close> for a global regular expression: the matches are
  found from left to right and do not overlap; \<open>skip\<close> counts the characters still
  covered by the last match.
\<close>

fun match_count_from :: "rx_item list \<Rightarrow> nat \<Rightarrow> char option \<Rightarrow> string \<Rightarrow> nat" where
  "match_count_from re skip prev [] =
     (if skip = 0 \<and> match_here re prev [] \<noteq> None then 1 else 0)"
| "match_count_from re skip prev (c # cs) =
     (if skip > 0 then match_count_from re (skip - 1) (Some c) cs
      else (case match_here re prev (c # cs) of
              None \<Rightarrow> match_count_from re 0 (Some c) cs
            | Some n \<Rightarrow> 1 + match_count_from re (n - 1) (Some c) cs))"

definition match_count :: "string \<Rightarrow> rx_item list \<Rightarrow> nat" where
  "match_count text re = match_count_from re 0 None text"

definition bind_err :: "error + 'a \<Rightarrow> ('a \<Rightarrow> error + 'b) \<Rightarrow> error + 'b" where
  "bind_err m f = (case m of Inl e \<Rightarrow> Inl e | Inr x \<Rightarrow> f x)"

section \<open>Entity and sector relevance extractor\<close>

definition getIndustryKeywords :: "string \<Rightarrow> string list" where
  "getIndustryKeywords s =
     (case map_of
        [(''Technology'', [''innovation'', ''software'', ''hardware'', ''digital'', ''cloud'',
            ''AI'', ''data'', ''platform'', ''algorithm'']),
         (''Healthcare'', [''drug'', ''treatment'', ''clinical'', ''FDA'', ''medical'',
            ''pharmaceutical'', ''biotech'', ''vaccine'']),
         (''Financial Services'', [''banking'', ''lending'', ''credit'', ''financial'',
            ''payment'', ''fintech'', ''regulation'', ''interest'']),
         (''Consumer Discretionary'', [''retail'', ''brand'', ''consumer'', ''sales'',
            ''marketing'', ''e-commerce'', ''shopping'', ''automotive'']),
         (''Consumer Staples'', [''food'', ''beverage'', ''household'', ''grocery'', ''brand'',
            ''consumer goods'']),
         (''Energy'', [''oil'', ''gas'', ''renewable'', ''solar'', ''wind'', ''battery'',
            ''electric'', ''carbon'', ''energy'']),
         (''Industrials'', [''manufacturing'', ''industrial'', ''aerospace'', ''defense'',
            ''transportation'', ''logistics''])] s
      of Some ks \<Rightarrow> ks | None \<Rightarrow> [])"

definition getCompetitors :: "string \<Rightarrow> string list" where
  "getCompetitors t =
     (case map_of
        [(''AAPL'', [''samsung'', ''google'', ''microsoft'', ''amazon'']),
         (''MSFT'', [''apple'', ''google'', ''amazon'', ''oracle'']),
         (''GOOGL'', [''apple'', ''microsoft'', ''amazon'', ''meta'']),
         (''AMZN'', [''microsoft'', ''google'', ''walmart'', ''alibaba'']),
         (''TSLA'', [''ford'', ''gm'', ''volkswagen'', ''toyota'']),
         (''META'', [''google'', ''apple'', ''twitter'', ''snapchat'']),
         (''NVDA'', [''amd'', ''intel'', ''qualcomm'', ''broadcom''])] t
      of Some cs \<Rightarrow> cs | None \<Rightarrow> [])"

text \<open>
  \<^verbatim>\<open>keywords.filter(keyword => text.toLowerCase().includes(keyword.toLowerCase()))\<close>
\<close>

definition matched_lower :: "string list \<Rightarrow> string \<Rightarrow> string list" where
  "matched_lower keywords text =
     filter (\<lambda>keyword. str_includes (toLowerCase text) (toLowerCase keyword)) keywords"

text \<open>
  \<^verbatim>\<open>companyName.toLowerCase().split(' ').filter(word => word.length > 3)\<close>
\<close>

definition nameWords :: "string \<Rightarrow> string list" where
  "nameWords companyName =
     filter (\<lambda>word. length word > 3) (split_space (toLowerCase companyName))"

text \<open>The condition of the direct ticker mention in \<^verbatim>\<open>identifyConnectedStocks\<close>.\<close>

definition directTickerMention :: "string \<Rightarrow> string \<Rightarrow> bool" where
  "directTickerMention text ticker =
     (str_includes text (toLowerCase ticker)
      \<or> str_includes text (CHR ''$'' # toLowerCase ticker))"

text \<open>The body of the loop of \<^verbatim>\<open>identifyConnectedStocks\<close> for one company.\<close>

definition relevanceScore :: "string \<Rightarrow> string \<Rightarrow> company \<Rightarrow> number" where
  "relevanceScore text ticker company =
     (let s0 = (if directTickerMention text ticker then 10 else 0);
          nameMatches = length (matched (nameWords (name company)) text);
          s1 = s0 + of_nat nameMatches * 5;
          sectorMatches = length (matched (sector_keywords (sector company)) text);
          s2 = s1 + of_nat sectorMatches * 2;
          industryMatches = length (matched_lower (getIndustryKeywords (sector company)) text);
          s3 = s2 + of_nat industryMatches * (3 / 2);
          competitorMatches = length (matched_lower (getCompetitors ticker) text)
      in s3 + of_nat competitorMatches * 1)"

text \<open>
  \<^verbatim>\<open>Array.prototype.sort(compare)\<close>: a stable sort; \<open>compare a b \<le> 0\<close> keeps \<open>a\<close>
  before \<open>b\<close>.
\<close>

fun sort_insert :: "('a \<Rightarrow> 'a \<Rightarrow> number) \<Rightarrow> 'a \<Rightarrow> 'a list \<Rightarrow> 'a list" where
  "sort_insert compare x [] = [x]"
| "sort_insert compare x (y # ys) =
     (if compare x y \<le> 0 then x # y # ys else y # sort_insert compare x ys)"

definition array_sort :: "('a \<Rightarrow> 'a \<Rightarrow> number) \<Rightarrow> 'a list \<Rightarrow> 'a list" where
  "array_sort compare xs = foldr (sort_insert compare) xs []"

definition stockRelevanceScores :: "string \<Rightarrow> (string \<times> number) list" where
  "stockRelevanceScores text =
     filter (\<lambda>stock. snd stock > 0)
       (map (\<lambda>(ticker, company). (ticker, relevanceScore text ticker company)) COMPANY_DATABASE)"

definition broadMarketKeywords :: "string list" where
  "broadMarketKeywords =
     [''market'', ''economy'', ''fed'', ''inflation'', ''gdp'', ''recession'', ''bull'', ''bear'']"

definition identifyConnectedStocks :: "string \<Rightarrow> string list" where
  "identifyConnectedStocks text =
     (let sortedStocks =
            filter (\<lambda>stock. snd stock \<ge> 2)
              (array_sort (\<lambda>a b. snd b - snd a) (stockRelevanceScores text))
      in if length sortedStocks > 0 then map fst (take 6 sortedStocks)
         else if list_ex (\<lambda>keyword. str_includes text keyword) broadMarketKeywords
         then [''AAPL'', ''MSFT'', ''GOOGL'', ''AMZN'']
         else [])"

definition identifyAffectedSectors :: "string \<Rightarrow> string list" where
  "identifyAffectedSectors text =
     (let affectedSectors =
            map fst (filter (\<lambda>(sector, keywords). list_ex (\<lambda>keyword. str_includes text keyword) keywords)
                       SECTOR_KEYWORDS)
      in take 5 (if length affectedSectors = 0
                 then [''Technology'', ''Financial Services'', ''Healthcare'']
                 else affectedSectors))"

section \<open>Impact prediction model\<close>

text \<open>
  \<^verbatim>\<open>Math.random()\<close> is the one impure call of the engine. The state of the generator is
  the sequence of the values it is still going to return; a draw returns the first one
  and leaves the rest.
\<close>

type_synonym rng = "nat \<Rightarrow> number"

definition Math_random :: "rng \<Rightarrow> number \<times> rng" where
  "Math_random g = (g 0, \<lambda>i. g (Suc i))"

fun count_name_words :: "string \<Rightarrow> string list \<Rightarrow> nat \<Rightarrow> error + nat" where
  "count_name_words text [] count = Inr count"
| "count_name_words text (word # ws) count =
     (case RegExp_new word of
        Inl e \<Rightarrow> Inl e
      | Inr re \<Rightarrow> count_name_words text ws (count + match_count text re))"

definition countCompanyMentions :: "string \<Rightarrow> string \<Rightarrow> string \<Rightarrow> error + nat" where
  "countCompanyMentions text ticker companyName =
     bind_err (RegExp_new (toLowerCase ticker)) (\<lambda>re1.
     bind_err (RegExp_new (backslash # CHR ''$'' # toLowerCase ticker)) (\<lambda>re2.
     count_name_words text (nameWords companyName)
       (match_count text re1 + match_count text re2)))"

definition calculateSectorRelevance :: "string \<Rightarrow> string \<Rightarrow> number" where
  "calculateSectorRelevance text s =
     min 1 (of_nat (length (matched (sector_keywords s) text)) * (2 / 10))"

definition calculateNewsRelevance :: "string \<Rightarrow> company \<Rightarrow> string \<Rightarrow> error + number" where
  "calculateNewsRelevance ticker company text =
     bind_err (RegExp_new (backslash # CHR ''b'' # toLowerCase ticker @ [backslash, CHR ''b'']))
       (\<lambda>re.
          let tickerMentions = match_count (toLowerCase text) re;
              relevance1 = 1 + (if tickerMentions > 0 then 3 / 10 else 0);
              keywordMatches = length (matched_lower (getIndustryKeywords (sector company)) text);
              relevance2 = relevance1 + min (4 / 10) (of_nat keywordMatches * (8 / 100));
              competitorMentions = length (matched_lower (getCompetitors ticker) text);
              relevance3 = relevance2 + (if competitorMentions > 0 then 15 / 100 else 0)
          in Inr (min 2 relevance3))"

text \<open>
  \<^verbatim>\<open>buildAdvancedPredictionModel\<close> returns three closures over its four arguments; the
  model is the record of what they capture.
\<close>

record predictionModel =
  pm_ticker :: string
  pm_company :: company
  pm_text :: string
  pm_sentiment :: MarketSentiment

definition buildAdvancedPredictionModel ::
  "string \<Rightarrow> company \<Rightarrow> string \<Rightarrow> MarketSentiment \<Rightarrow> predictionModel" where
  "buildAdvancedPredictionModel ticker company text sentiment =
     \<lparr>pm_ticker = ticker, pm_company = company, pm_text = text, pm_sentiment = sentiment\<rparr>"

definition calculateImpactScore :: "predictionModel \<Rightarrow> error + number" where
  "calculateImpactScore pm =
     bind_err (countCompanyMentions (pm_text pm) (pm_ticker pm) (name (pm_company pm)))
       (\<lambda>companyMentions.
          let impactScore0 = score (pm_sentiment pm);
              mentionBoost = min (3 / 10) (of_nat companyMentions * (8 / 100));
              impactScore1 = min 1 (impactScore0 + mentionBoost);
              sectorRelevance = calculateSectorRelevance (pm_text pm) (sector (pm_company pm));
              sectorWeight = 4 / 10;
              impactScore2 = impactScore1 * (1 - sectorWeight) + sectorRelevance * sectorWeight;
              volatilityFactor =
                (if marketCap (pm_company pm) > 1000000000000 then 85 / 100 else 115 / 100);
              impactScore3 = 1 / 2 + (impactScore2 - 1 / 2) * volatilityFactor
          in bind_err (calculateNewsRelevance (pm_ticker pm) (pm_company pm) (pm_text pm))
               (\<lambda>newsRelevance.
                  let impactScore4 = 1 / 2 + (impactScore3 - 1 / 2) * newsRelevance
                  in Inr (max 0 (min 1 impactScore4))))"

definition calculateConfidence :: "predictionModel \<Rightarrow> rng \<Rightarrow> error + (number \<times> rng)" where
  "calculateConfidence pm g =
     (let sentimentStrength = \<bar>score (pm_sentiment pm) - 1 / 2\<bar> * 2;
          confidence0 = 1 / 2 + sentimentStrength * (3 / 10)
      in bind_err (countCompanyMentions (pm_text pm) (pm_ticker pm) (name (pm_company pm)))
           (\<lambda>companyMentions.
              let confidence1 = confidence0 + min (2 / 10) (of_nat companyMentions * (4 / 100));
                  sectorRelevance = calculateSectorRelevance (pm_text pm) (sector (pm_company pm));
                  confidence2 = confidence1 + sectorRelevance * (15 / 100);
                  stabilityFactor =
                    (if marketCap (pm_company pm) > 500000000000 then 11 / 10 else 95 / 100);
                  confidence3 = confidence2 * stabilityFactor;
                  (r, g') = Math_random g;
                  historicalAccuracy = 8 / 10 + r * (15 / 100);
                  confidence4 = confidence3 * historicalAccuracy
              in Inr (max (3 / 10) (min (95 / 100) confidence4), g')))"

record modelFactors =
  companyMentions :: nat
  sectorRelevance :: number
  newsRelevance :: number
  volatilityFactor :: number

definition getModelFactors :: "predictionModel \<Rightarrow> error + modelFactors" where
  "getModelFactors pm =
     bind_err (countCompanyMentions (pm_text pm) (pm_ticker pm) (name (pm_company pm))) (\<lambda>cm.
     bind_err (calculateNewsRelevance (pm_ticker pm) (pm_company pm) (pm_text pm)) (\<lambda>nr.
     Inr \<lparr>companyMentions = cm,
          sectorRelevance = calculateSectorRelevance (pm_text pm) (sector (pm_company pm)),
          newsRelevance = nr,
          volatilityFactor =
            (if marketCap (pm_company pm) > 1000000000000 then 85 / 100 else 115 / 100)\<rparr>))"

datatype impactLevel = VeryNegative | Negative | Neutral | Positive | VeryPositive

datatype timeframe = Immediate | ShortTerm | MediumTerm | LongTerm

record priceTarget =
  current :: number
  predicted :: number
  change :: number
  changePercent :: number

text \<open>
  The interface \<^verbatim>\<open>StockImpact\<close>; its fields carry the prefix \<open>si_\<close>, since the engine
  uses their names for local variables, and the optional field \<^verbatim>\<open>priceTarget\<close> is an
  option.
\<close>

record StockImpact =
  si_ticker :: string
  si_companyName :: string
  si_impactScore :: number
  si_impactLevel :: impactLevel
  si_confidence :: number
  si_timeframe :: timeframe
  si_reasoning :: "string list"
  si_priceTarget :: "priceTarget option"

definition getImpactLevel :: "number \<Rightarrow> impactLevel" where
  "getImpactLevel s =
     (if s > 8 / 10 then VeryPositive
      else if s > 6 / 10 then Positive
      else if s > 4 / 10 then Neutral
      else if s > 2 / 10 then Negative
      else VeryNegative)"

section \<open>Numbers in template strings\<close>

fun show_nat :: "nat \<Rightarrow> string" where
  "show_nat n =
     (if n < 10 then [char_of (48 + n)]
      else show_nat (n div 10) @ [char_of (48 + n mod 10)])"

declare show_nat.simps [simp del]

definition show_int :: "int \<Rightarrow> string" where
  "show_int i = (if i < 0 then CHR ''-'' # show_nat (nat (- i)) else show_nat (nat i))"

text \<open>\<^verbatim>\<open>words.join(sep)\<close>\<close>

fun join :: "string \<Rightarrow> string list \<Rightarrow> string" where
  "join sep [] = []"
| "join sep [w] = w"
| "join sep (w # v # ws) = w @ sep @ join sep (v # ws)"

section \<open>Reasoning, price target and timeframe of one stock\<close>

definition generateAdvancedStockReasoning ::
  "string \<Rightarrow> company \<Rightarrow> string \<Rightarrow> MarketSentiment \<Rightarrow> predictionModel \<Rightarrow> error + string list" where
  "generateAdvancedStockReasoning ticker company text sentiment pm =
     bind_err (getModelFactors pm) (\<lambda>modelFactors.
       let matchedKeywords = matched_lower (getIndustryKeywords (sector company)) text;
           r1 = (if length matchedKeywords > 0
                 then [''Strong '' @ sector company @ '' sector relevance with ''
                        @ show_nat (length matchedKeywords) @ '' industry keywords identified'']
                 else [''Indirect '' @ sector company @ '' sector exposure to market developments'']);
           r2 = (if score sentiment > 7 / 10
                 then [''Strong positive sentiment ('' @ show_int (Math_round (score sentiment * 100))
                        @ ''%) creates significant upside potential'']
                 else if score sentiment > 6 / 10
                 then [''Moderate positive sentiment likely to support stock performance'']
                 else if score sentiment < 3 / 10
                 then [''Negative sentiment ('' @ show_int (Math_round (score sentiment * 100))
                        @ ''%) may create downward pressure'']
                 else if score sentiment < 4 / 10
                 then [''Cautious sentiment suggests potential volatility ahead'']
                 else []);
           r3 = (if companyMentions modelFactors > 2
                 then [''High news relevance with '' @ show_nat (companyMentions modelFactors)
                        @ '' direct company mentions'']
                 else if companyMentions modelFactors > 0
                 then [''Moderate news relevance with direct company references'']
                 else []);
           r4 = (if marketCap company > 1000000000000
                 then [''Large-cap stability may moderate price movements but ensure sustained impact'']
                 else if marketCap company > 100000000000
                 then [''Mid-to-large cap positioning allows for meaningful price discovery'']
                 else [''Smaller market cap may amplify price reactions to news developments'']);
           businessFactors =
             (if str_includes text ''earnings'' \<or> str_includes text ''revenue''
                 \<or> str_includes text ''profit'' then [''financial performance''] else [])
             @ (if str_includes text ''regulation'' \<or> str_includes text ''policy''
                 \<or> str_includes text ''compliance'' then [''regulatory environment''] else [])
             @ (if str_includes text ''competition'' \<or> str_includes text ''market share''
                then [''competitive dynamics''] else [])
             @ (if str_includes text ''innovation'' \<or> str_includes text ''product''
                 \<or> str_includes text ''launch'' then [''product development''] else []);
           r5 = (if length businessFactors > 0
                 then [''Key business drivers identified: '' @ join '', '' businessFactors]
                 else []);
           r6 = (if newsRelevance modelFactors > 13 / 10
                 then [''High news relevance score suggests strong correlation with stock performance'']
                 else [])
       in Inr (take 5 (r1 @ r2 @ r3 @ r4 @ r5 @ r6)))"

definition basePrices :: "(string \<times> number) list" where
  "basePrices =
     [(''AAPL'', 175), (''MSFT'', 350), (''GOOGL'', 140), (''AMZN'', 145), (''TSLA'', 240),
      (''META'', 320), (''NVDA'', 450), (''JPM'', 150), (''JNJ'', 160), (''V'', 250),
      (''PG'', 155), (''UNH'', 520), (''HD'', 330), (''MA'', 380), (''BAC'', 32)]"

text \<open>
  \<^verbatim>\<open>table[key] || fallback\<close> for a key that is an entry of the table or no property
  name at all: the fallback also replaces an entry that is 0. The engine looks up the
  tickers and the sectors of the registry only; a name that an object literal inherits
  (such as \<^verbatim>\<open>constructor\<close>) is outside the model.
\<close>

definition lookup_or :: "(string \<times> number) list \<Rightarrow> string \<Rightarrow> number \<Rightarrow> number" where
  "lookup_or table key fallback =
     (case map_of table key of
        None \<Rightarrow> fallback
      | Some v \<Rightarrow> if v = 0 then fallback else v)"

definition getSectorVolatility :: "string \<Rightarrow> number" where
  "getSectorVolatility s =
     lookup_or
       [(''Technology'', 12 / 10), (''Healthcare'', 9 / 10), (''Financial Services'', 11 / 10),
        (''Consumer Discretionary'', 13 / 10), (''Consumer Staples'', 7 / 10), (''Energy'', 15 / 10),
        (''Industrials'', 1), (''Materials'', 14 / 10), (''Real Estate'', 8 / 10),
        (''Utilities'', 6 / 10)] s 1"

definition generateAdvancedPriceTarget ::
  "string \<Rightarrow> number \<Rightarrow> predictionModel \<Rightarrow> rng \<Rightarrow> error + (priceTarget option \<times> rng)" where
  "generateAdvancedPriceTarget ticker impactScore pm g =
     (let basePrice = lookup_or basePrices ticker 100
      in bind_err (getModelFactors pm) (\<lambda>modelFactors.
           let changePercent0 = (impactScore - 1 / 2) * 25;
               company = map_of COMPANY_DATABASE ticker;
               changePercent1 =
                 (case company of
                    None \<Rightarrow> changePercent0
                  | Some c \<Rightarrow>
                      changePercent0 * (if marketCap c > 1000000000000 then 7 / 10 else 13 / 10));
               changePercent2 = changePercent1 * newsRelevance modelFactors
           in bind_err (calculateConfidence pm g) (\<lambda>(confidence, g').
                let confidenceMultiplier = 1 / 2 + confidence * (1 / 2);
                    changePercent3 = changePercent2 * confidenceMultiplier;
                    sectorVolatility =
                      getSectorVolatility
                        (case company of None \<Rightarrow> ''Technology''
                         | Some c \<Rightarrow> if sector c = [] then ''Technology'' else sector c);
                    changePercent4 = changePercent3 * sectorVolatility;
                    predictedPrice = basePrice * (1 + changePercent4 / 100)
                in Inr (Some \<lparr>current = basePrice,
                              predicted = of_int (Math_round (predictedPrice * 100)) / 100,
                              change = of_int (Math_round ((predictedPrice - basePrice) * 100)) / 100,
                              changePercent = of_int (Math_round (changePercent4 * 100)) / 100\<rparr>,
                        g'))))"

definition determineDynamicTimeframe :: "string \<Rightarrow> number \<Rightarrow> number \<Rightarrow> timeframe" where
  "determineDynamicTimeframe text impactScore conf =
     (let immediateKeywords =
            [''immediate'', ''today'', ''breaking'', ''urgent'', ''now'', ''just announced'']
      in if list_ex (\<lambda>keyword. str_includes (toLowerCase text) keyword) immediateKeywords
         then Immediate
         else
           let shortTermKeywords =
                 [''quarter'', ''earnings'', ''this week'', ''next week'', ''monthly''];
               hasShortTermKeywords =
                 list_ex (\<lambda>keyword. str_includes (toLowerCase text) keyword) shortTermKeywords;
               highImpact = (\<bar>impactScore - 1 / 2\<bar> > 25 / 100);
               highConfidence = (conf > 8 / 10)
           in if hasShortTermKeywords \<or> (highImpact \<and> highConfidence) then ShortTerm
              else
                let longTermKeywords =
                      [''year'', ''years'', ''long-term'', ''strategic'', ''future'', ''roadmap'',
                       ''vision''];
                    hasLongTermKeywords =
                      list_ex (\<lambda>keyword. str_includes (toLowerCase text) keyword) longTermKeywords;
                    structuralChange =
                      (str_includes (toLowerCase text) ''regulation''
                       \<or> str_includes (toLowerCase text) ''policy''
                       \<or> str_includes (toLowerCase text) ''transformation'')
                in if hasLongTermKeywords \<or> structuralChange then LongTerm
                   else if conf > 7 / 10 then ShortTerm else MediumTerm)"

section \<open>Stock impacts\<close>

text \<open>The body of the loop of \<^verbatim>\<open>generateStockImpacts\<close> for a ticker of the registry.\<close>

definition stockImpactOf ::
  "string \<Rightarrow> company \<Rightarrow> string \<Rightarrow> MarketSentiment \<Rightarrow> rng \<Rightarrow> error + (StockImpact \<times> rng)" where
  "stockImpactOf ticker company text sentiment g =
     (let pm = buildAdvancedPredictionModel ticker company text sentiment
      in bind_err (calculateImpactScore pm) (\<lambda>impactScore.
         bind_err (calculateConfidence pm g) (\<lambda>(confidence, g1).
         let impactLevel = getImpactLevel impactScore
         in bind_err (generateAdvancedStockReasoning ticker company text sentiment pm) (\<lambda>reasoning.
            bind_err (generateAdvancedPriceTarget ticker impactScore pm g1) (\<lambda>(priceTarget, g2).
            let timeframe = determineDynamicTimeframe text impactScore confidence
            in Inr (\<lparr>si_ticker = ticker,
                      si_companyName = name company,
                      si_impactScore = impactScore,
                      si_impactLevel = impactLevel,
                      si_confidence = confidence,
                      si_timeframe = timeframe,
                      si_reasoning = reasoning,
                      si_priceTarget = priceTarget\<rparr>, g2))))))"

fun stockImpacts_loop ::
  "string list \<Rightarrow> string \<Rightarrow> MarketSentiment \<Rightarrow> StockImpact list \<Rightarrow> rng
     \<Rightarrow> error + (StockImpact list \<times> rng)" where
  "stockImpacts_loop [] text sentiment impacts g = Inr (impacts, g)"
| "stockImpacts_loop (ticker # stocks) text sentiment impacts g =
     (case map_of COMPANY_DATABASE ticker of
        None \<Rightarrow> stockImpacts_loop stocks text sentiment impacts g
      | Some company \<Rightarrow>
          (case stockImpactOf ticker company text sentiment g of
             Inl e \<Rightarrow> Inl e
           | Inr (impact, g') \<Rightarrow> stockImpacts_loop stocks text sentiment (impacts @ [impact]) g'))"

definition generateStockImpacts ::
  "string list \<Rightarrow> string \<Rightarrow> MarketSentiment \<Rightarrow> rng \<Rightarrow> error + (StockImpact list \<times> rng)" where
  "generateStockImpacts stocks text sentiment g =
     bind_err (stockImpacts_loop stocks text sentiment [] g) (\<lambda>(impacts, g').
       Inr (array_sort (\<lambda>a b. \<bar>si_impactScore b - 1 / 2\<bar> - \<bar>si_impactScore a - 1 / 2\<bar>) impacts, g'))"

section \<open>Sector impacts and narrative\<close>

text \<open>The interface \<^verbatim>\<open>MarketSector\<close>; its fields carry the prefix \<open>ms_\<close>.\<close>

record MarketSector =
  ms_name :: string
  ms_impactScore :: number
  ms_affectedStocks :: "string list"
  ms_reasoning :: string

definition generateSectorReasoning :: "string \<Rightarrow> string \<Rightarrow> MarketSentiment \<Rightarrow> string" where
  "generateSectorReasoning s text sentiment =
     (let matchedKeywords = matched (sector_keywords s) text
      in if length matchedKeywords > 0
         then ''Sector directly mentioned with keywords: '' @ join '', '' (take 3 matchedKeywords)
              @ ''. '' @ label sentiment @ '' sentiment expected to ''
              @ (if score sentiment > 1 / 2 then ''benefit'' else ''challenge'')
              @ '' sector performance.''
         else ''Indirect sector exposure through market dynamics. Overall ''
              @ toLowerCase (label sentiment) @ '' sentiment may influence sector performance.'')"

definition generateSectorImpacts ::
  "string list \<Rightarrow> string \<Rightarrow> MarketSentiment \<Rightarrow> MarketSector list" where
  "generateSectorImpacts sectors text sentiment =
     map (\<lambda>s.
            let relevance = calculateSectorRelevance text s;
                impactScore = (score sentiment + relevance) / 2;
                affectedStocks =
                  take 4 (map fst (filter (\<lambda>(ticker, company). sector company = s) COMPANY_DATABASE));
                reasoning = generateSectorReasoning s text sentiment
            in \<lparr>ms_name = s, ms_impactScore = impactScore, ms_affectedStocks = affectedStocks,
                ms_reasoning = reasoning\<rparr>)
         sectors"

text \<open>
  \<^verbatim>\<open>generateKeyInsights\<close> sorts the array of sector impacts it is given in place, so the
  sector impacts of the result are in the sorted order; the model returns the sorted
  list beside the insights. The percentage of a list of zero stocks is \<^verbatim>\<open>NaN\<close>.
\<close>

definition generateKeyInsights ::
  "string \<Rightarrow> string \<Rightarrow> StockImpact list \<Rightarrow> MarketSector list \<Rightarrow> string list \<times> MarketSector list" where
  "generateKeyInsights headline text stockImpacts sectorImpacts =
     (let topPositive = take 2 (filter (\<lambda>s. si_impactScore s > 6 / 10) stockImpacts);
          topNegative = take 2 (filter (\<lambda>s. si_impactScore s < 4 / 10) stockImpacts);
          i1 = (if length topPositive > 0
                then [join '' and '' (map si_ticker topPositive)
                       @ '' show strongest positive impact potential with high confidence levels.'']
                else []);
          i2 = (if length topNegative > 0
                then [join '' and '' (map si_ticker topNegative)
                       @ '' may face headwinds based on the analysis.'']
                else []);
          sorted_sectorImpacts =
            array_sort (\<lambda>a b. \<bar>ms_impactScore b - 1 / 2\<bar> - \<bar>ms_impactScore a - 1 / 2\<bar>)
              sectorImpacts;
          i3 = (case sorted_sectorImpacts of
                  [] \<Rightarrow> []
                | topSector # _ \<Rightarrow>
                    [ms_name topSector
                      @ '' sector shows the most significant exposure to these developments.'']);
          immediateImpacts = length (filter (\<lambda>s. si_timeframe s = Immediate) stockImpacts);
          i4 = (if immediateImpacts > 0
                then [show_nat immediateImpacts
                       @ '' stocks expected to see immediate market reaction within 24 hours.'']
                else []);
          positiveCount = length (filter (\<lambda>s. si_impactScore s > 1 / 2) stockImpacts);
          totalCount = length stockImpacts;
          percentage =
            (if totalCount = 0 then ''NaN''
             else show_int (Math_round (of_nat positiveCount / of_nat totalCount * 100)));
          i5 = [''Market sentiment analysis suggests '' @ percentage
                 @ ''% of analyzed stocks may benefit from these developments.'']
      in (take 5 (i1 @ i2 @ i3 @ i4 @ i5), sorted_sectorImpacts))"

definition identifyRiskFactors :: "string \<Rightarrow> MarketSentiment \<Rightarrow> string list" where
  "identifyRiskFactors text sentiment =
     take 4
       ((if str_includes text ''regulation'' \<or> str_includes text ''policy''
         then [''Regulatory uncertainty may create additional volatility''] else [])
        @ (if str_includes text ''inflation'' \<or> str_includes text ''interest rate''
           then [''Macroeconomic factors could amplify market reactions''] else [])
        @ (if confidence sentiment < 7 / 10
           then [''Analysis confidence is moderate due to limited information''] else [])
        @ (if str_includes text ''geopolitical'' \<or> str_includes text ''trade''
           then [''Geopolitical tensions may affect international market exposure''] else [])
        @ [''Market conditions can change rapidly, affecting prediction accuracy''])"

definition identifyOpportunities :: "string \<Rightarrow> MarketSentiment \<Rightarrow> string list" where
  "identifyOpportunities text sentiment =
     take 4
       ((if score sentiment > 6 / 10
         then [''Strong positive sentiment creates potential for momentum-driven gains''] else [])
        @ (if str_includes text ''innovation'' \<or> str_includes text ''technology''
           then [''Technology sector developments may create long-term growth opportunities'']
           else [])
        @ (if str_includes text ''earnings'' \<or> str_includes text ''revenue''
           then [''Financial performance improvements could drive sustained price appreciation'']
           else [])
        @ (if str_includes text ''merger'' \<or> str_includes text ''acquisition''
           then [''Corporate activity may create value for shareholders''] else [])
        @ [''Market volatility creates potential entry points for long-term investors''])"

record timeline =
  immediate :: "string list"
  shortTerm :: "string list"
  longTerm :: "string list"

definition generateTimeline :: "string \<Rightarrow> string \<Rightarrow> MarketSentiment \<Rightarrow> timeline" where
  "generateTimeline headline text sentiment =
     \<lparr>immediate =
        [''Initial market reaction and price discovery'',
         ''Trading volume spike in affected securities'',
         ''Analyst commentary and rating updates''],
      shortTerm =
        [''Earnings guidance adjustments from companies'',
         ''Sector rotation based on new information'',
         ''Options market activity reflecting sentiment shifts''],
      longTerm =
        [''Fundamental business impact assessment'',
         ''Strategic positioning changes by companies'',
         ''Long-term valuation multiple adjustments'']\<rparr>"

section \<open>Orchestrator\<close>

record AIAnalysisResult =
  stockImpacts :: "StockImpact list"
  sectorImpacts :: "MarketSector list"
  overallMarketSentiment :: MarketSentiment
  keyInsights :: "string list"
  riskFactors :: "string list"
  opportunities :: "string list"
  timeline :: timeline

text \<open>
  \<^verbatim>\<open>analyzeArticleImpact\<close> returns a promise; a rejected promise is the \<open>Inl\<close> of the
  model. Beside the result the model returns the generator as the call leaves it.
\<close>

definition analyzeArticleImpact ::
  "string \<Rightarrow> string \<Rightarrow> rng \<Rightarrow> error + (AIAnalysisResult \<times> rng)" where
  "analyzeArticleImpact headline fullText g =
     (let combinedText = toLowerCase (headline @ '' '' @ fullText);
          relevantStocks = identifyConnectedStocks combinedText;
          affectedSectors = identifyAffectedSectors combinedText;
          sentimentAnalysis = analyzeSentiment combinedText
      in bind_err (generateStockImpacts relevantStocks combinedText sentimentAnalysis g)
           (\<lambda>(stockImpacts, g').
              let sectorImpacts = generateSectorImpacts affectedSectors combinedText sentimentAnalysis;
                  (insights, sectorImpacts') =
                    generateKeyInsights headline combinedText stockImpacts sectorImpacts;
                  risks = identifyRiskFactors combinedText sentimentAnalysis;
                  opportunities = identifyOpportunities combinedText sentimentAnalysis;
                  timeline = generateTimeline headline combinedText sentimentAnalysis
              in Inr (\<lparr>stockImpacts = stockImpacts,
                        sectorImpacts = sectorImpacts',
                        overallMarketSentiment =
                          \<lparr>score = score sentimentAnalysis,
                           label = label sentimentAnalysis,
                           confidence = confidence sentimentAnalysis\<rparr>,
                        keyInsights = insights,
                        riskFactors = risks,
                        opportunities = opportunities,
                        timeline = timeline\<rparr>, g')))"

section \<open>Notions of the specification\<close>

text \<open>
  The specification describes the sentiment score through the numbers of lexicon
  keywords of each polarity and tier that occur in the text.
\<close>

definition tier :: "(string \<times> string list) list \<Rightarrow> string \<Rightarrow> string \<Rightarrow> nat" where
  "tier table intensity text =
     length (matched (case map_of table intensity of Some ks \<Rightarrow> ks | None \<Rightarrow> []) text)"

definition lexicon_weightedSum :: "string \<Rightarrow> int" where
  "lexicon_weightedSum text =
     (3 * int (tier SENTIMENT_KEYWORDS_positive ''strong'' text)
      + 2 * int (tier SENTIMENT_KEYWORDS_positive ''moderate'' text)
      + 1 * int (tier SENTIMENT_KEYWORDS_positive ''mild'' text))
     - (3 * int (tier SENTIMENT_KEYWORDS_negative ''strong'' text)
      + 2 * int (tier SENTIMENT_KEYWORDS_negative ''moderate'' text)
      + 1 * int (tier SENTIMENT_KEYWORDS_negative ''mild'' text))"

definition lexicon_totalMatches :: "string \<Rightarrow> nat" where
  "lexicon_totalMatches text =
     tier SENTIMENT_KEYWORDS_positive ''strong'' text
      + tier SENTIMENT_KEYWORDS_positive ''moderate'' text
      + tier SENTIMENT_KEYWORDS_positive ''mild'' text
      + tier SENTIMENT_KEYWORDS_negative ''strong'' text
      + tier SENTIMENT_KEYWORDS_negative ''moderate'' text
      + tier SENTIMENT_KEYWORDS_negative ''mild'' text"

definition lexicon :: "string list" where
  "lexicon = concat (map snd (SENTIMENT_KEYWORDS_positive @ SENTIMENT_KEYWORDS_negative))"

text \<open>The raw signed value of the specification, before the rescaling to the unit interval.\<close>

definition spec_raw :: "string \<Rightarrow> number" where
  "spec_raw text =
     (if \<forall>keyword \<in> set lexicon. \<not> str_includes text keyword then 0
      else clamp (- 1) 1
             (of_int (lexicon_weightedSum text) / (of_nat (lexicon_totalMatches text) * 2)))"

text \<open>
  Patterns without syntax characters other than the wildcard, the regular expression
  they denote, and the number of mentions \<^verbatim>\<open>countCompanyMentions\<close> counts with them.
\<close>

definition rx_of_char :: "char \<Rightarrow> rx_item" where
  "rx_of_char c = (if c = CHR ''.'' then AnyChar else Lit c)"

definition plain_pattern :: "string \<Rightarrow> bool" where
  "plain_pattern p = list_all (\<lambda>c. c = CHR ''.'' \<or> c \<notin> set syntax_characters) p"

definition word_counts :: "string \<Rightarrow> string list \<Rightarrow> nat" where
  "word_counts text ws = sum_list (map (\<lambda>w. match_count text (map rx_of_char w)) ws)"

definition mentions :: "string \<Rightarrow> string \<Rightarrow> string \<Rightarrow> nat" where
  "mentions text ticker companyName =
     match_count text (map rx_of_char (toLowerCase ticker))
     + match_count text (Lit CHR ''$'' # map rx_of_char (toLowerCase ticker))
     + word_counts text (nameWords companyName)"

text \<open>
  A bare token: the token occurs at a position with no word character right before it
  and none right after it.
\<close>

definition tokenHere :: "string \<Rightarrow> char option \<Rightarrow> string \<Rightarrow> bool" where
  "tokenHere token prev cs =
     (\<not> (case prev of None \<Rightarrow> False | Some p \<Rightarrow> isWordChar p)
      \<and> startsWith cs token
      \<and> \<not> (case drop (length token) cs of [] \<Rightarrow> False | c # _ \<Rightarrow> isWordChar c))"

fun bareTokenFrom :: "string \<Rightarrow> char option \<Rightarrow> string \<Rightarrow> bool" where
  "bareTokenFrom token prev [] = tokenHere token prev []"
| "bareTokenFrom token prev (c # cs) =
     (tokenHere token prev (c # cs) \<or> bareTokenFrom token (Some c) cs)"

definition bareTokenOccurs :: "string \<Rightarrow> string \<Rightarrow> bool" where
  "bareTokenOccurs text token = bareTokenFrom token None text"

text \<open>The news-relevance multiplier in the words of the specification.\<close>

definition spec_newsRelevance :: "string \<Rightarrow> company \<Rightarrow> string \<Rightarrow> number" where
  "spec_newsRelevance ticker company text =
     min 2
       (1 + (if bareTokenOccurs (toLowerCase text) (toLowerCase ticker) then 3 / 10 else 0)
          + min (4 / 10)
              (of_nat (length (matched_lower (getIndustryKeywords (sector company)) text)) * (8 / 100))
          + (if \<exists>competitor \<in> set (getCompetitors ticker).
                  str_includes (toLowerCase text) (toLowerCase competitor)
             then 15 / 100 else 0))"

text \<open>
  The derivation of the impact score in the words of the specification, for a number of
  company mentions; \<open>afterBoost\<close> is what happens to the score right after the mention
  boost is added (nothing, in the specification).
\<close>

definition impactScore_steps ::
  "(number \<Rightarrow> number) \<Rightarrow> string \<Rightarrow> company \<Rightarrow> string \<Rightarrow> MarketSentiment \<Rightarrow> nat \<Rightarrow> number" where
  "impactScore_steps afterBoost ticker company text sentiment m =
     (let s1 = afterBoost (score sentiment + min (3 / 10) (of_nat m * (8 / 100)));
          sectorMatches = length (matched (sector_keywords (sector company)) text);
          s2 = s1 * (6 / 10) + min 1 (of_nat sectorMatches * (2 / 10)) * (4 / 10);
          s3 = 1 / 2 + (s2 - 1 / 2) * (if marketCap company > 1000000000000 then 85 / 100 else 115 / 100);
          s4 = 1 / 2 + (s3 - 1 / 2) * spec_newsRelevance ticker company text
      in clamp 0 1 s4)"

text \<open>
  The confidence of a stock impact in the words of the specification, for a draw \<open>r\<close> of
  the random source.
\<close>

definition confidence_value ::
  "string \<Rightarrow> company \<Rightarrow> string \<Rightarrow> MarketSentiment \<Rightarrow> number \<Rightarrow> number" where
  "confidence_value ticker company text sentiment r =
     clamp (3 / 10) (95 / 100)
       ((1 / 2 + \<bar>score sentiment - 1 / 2\<bar> * 2 * (3 / 10)
         + min (2 / 10) (of_nat (mentions text ticker (name company)) * (4 / 100))
         + calculateSectorRelevance text (sector company) * (15 / 100))
        * (if marketCap company > 500000000000 then 11 / 10 else 95 / 100)
        * (8 / 10 + r * (15 / 100)))"

text \<open>What the invariants of the specification say of one stock impact.\<close>

definition stockImpact_bounded :: "StockImpact \<Rightarrow> bool" where
  "stockImpact_bounded x =
     (map_of COMPANY_DATABASE (si_ticker x) \<noteq> None
      \<and> 0 \<le> si_impactScore x \<and> si_impactScore x \<le> 1
      \<and> 3 / 10 \<le> si_confidence x \<and> si_confidence x \<le> 95 / 100)"

definition stockImpact_priced :: "StockImpact \<Rightarrow> bool" where
  "stockImpact_priced x =
     (case si_priceTarget x of
        None \<Rightarrow> False
      | Some p \<Rightarrow> current p = (case map_of basePrices (si_ticker x) of Some b \<Rightarrow> b | None \<Rightarrow> 100))"

text \<open>
  The accumulated relevance score in the words of the specification: 10 for a direct
  mention of the ticker, as a bare token or prefixed with a dollar sign, 5 for each
  distinct word of the company name (of more than 3 characters) that occurs, 2 for each
  sector keyword, 1.5 for each industry keyword and 1 for each competitor that occurs.
\<close>

definition spec_directMention :: "string \<Rightarrow> string \<Rightarrow> bool" where
  "spec_directMention text ticker =
     (bareTokenOccurs text (toLowerCase ticker)
      \<or> str_includes text (CHR ''$'' # toLowerCase ticker))"

definition spec_relevanceScore :: "string \<Rightarrow> string \<Rightarrow> company \<Rightarrow> number" where
  "spec_relevanceScore text ticker company =
     (if spec_directMention text ticker then 10 else 0)
     + 5 * of_nat (length (remdups (matched (nameWords (name company)) text)))
     + 2 * of_nat (length (matched (sector_keywords (sector company)) text))
     + (3 / 2) * of_nat (length (matched_lower (getIndustryKeywords (sector company)) text))
     + 1 * of_nat (length (matched_lower (getCompetitors ticker) text))"

section \<open>The score of the engine, by ticker\<close>

text \<open>
  The score that the loop of \<^verbatim>\<open>identifyConnectedStocks\<close> accumulates for a ticker of
  the registry (\<open>relevanceScore\<close>, with the substring test of the direct mention), and
  the tickers for which the engine accumulates at least 2. These are notions of the code,
  used to describe what \<open>identifyConnectedStocks\<close> computes.
\<close>

definition engineScore :: "string \<Rightarrow> string \<Rightarrow> number" where
  "engineScore text t =
     (case map_of COMPANY_DATABASE t of Some c \<Rightarrow> relevanceScore text t c | None \<Rightarrow> 0)"

definition engineCandidates :: "string \<Rightarrow> string list" where
  "engineCandidates text = filter (\<lambda>t. engineScore text t \<ge> 2) (map fst COMPANY_DATABASE)"

section \<open>Verified properties\<close>

subsection \<open>Lower case on the bits of a character\<close>

text \<open>
  The capital letters are the codes 65 to 90: bits 7 and 5 clear, bit 6 set, and the low
  five bits between 1 and 26. The small letter of a capital sets bit 5. Evaluation uses
  this equation.
\<close>

lemma toLowerChar_bits [code]:
  "toLowerChar (Char b0 b1 b2 b3 b4 b5 b6 b7) =
     (if \<not> b7 \<and> b6 \<and> \<not> b5 \<and> (b0 \<or> b1 \<or> b2 \<or> b3 \<or> b4)
         \<and> \<not> (b4 \<and> b3 \<and> (b2 \<or> (b1 \<and> b0)))
      then Char b0 b1 b2 b3 b4 True b6 b7
      else Char b0 b1 b2 b3 b4 b5 b6 b7)"
  by (cases b0; cases b1; cases b2; cases b3; cases b4; cases b5; cases b6; cases b7;
      simp add: toLowerChar_def)

subsection \<open>Sentiment analyzer\<close>

lemma sentiment_tiers_sum:
  "sentiment_tiers sign table text (s, t) =
     (s + sign * (\<Sum>(i, ks) \<leftarrow> table. int (length (matched ks text) * intensity_weight i)),
      t + (\<Sum>(i, ks) \<leftarrow> table. length (matched ks text)))"
  by (induction table arbitrary: s t) (auto simp: Let_def algebra_simps)

lemma matched_empty_iff:
  "length (matched ks text) = 0 \<longleftrightarrow> (\<forall>k \<in> set ks. \<not> str_includes text k)"
  by (auto simp: matched_def filter_empty_conv)

lemma totalMatches_zero_iff:
  "lexicon_totalMatches text = 0 \<longleftrightarrow> (\<forall>keyword \<in> set lexicon. \<not> str_includes text keyword)"
  unfolding lexicon_totalMatches_def tier_def lexicon_def
  by (simp add: SENTIMENT_KEYWORDS_positive_def SENTIMENT_KEYWORDS_negative_def
      matched_empty_iff ball_Un del: length_0_conv)

lemma sentiment_tiers_lexicon:
  "sentiment_tiers (- 1) SENTIMENT_KEYWORDS_negative text
     (sentiment_tiers 1 SENTIMENT_KEYWORDS_positive text (0, 0))
   = (lexicon_weightedSum text, lexicon_totalMatches text)"
  unfolding sentiment_tiers_sum lexicon_totalMatches_def lexicon_weightedSum_def tier_def
  by (simp add: SENTIMENT_KEYWORDS_positive_def SENTIMENT_KEYWORDS_negative_def
      intensity_weight_def)

lemma analyzeSentiment_unfold:
  "analyzeSentiment text =
     (let tm = lexicon_totalMatches text;
          raw = (if tm > 0
                 then max (- 1) (min 1 (of_int (lexicon_weightedSum text) / (of_nat tm * 2)))
                 else 0)
      in \<lparr>score = (raw + 1) / 2, label = sentiment_label raw,
          confidence = min (95 / 100) (max (3 / 10) (of_nat tm * (1 / 10) + 1 / 2))\<rparr>)"
  unfolding analyzeSentiment_def sentiment_tiers_lexicon
  by (simp add: Let_def split del: if_split)

lemma analyzeSentiment_raw:
  "(if lexicon_totalMatches text > 0
    then max (- 1) (min 1 (of_int (lexicon_weightedSum text) / (of_nat (lexicon_totalMatches text) * 2)))
    else 0) = spec_raw text"
  using totalMatches_zero_iff [of "text"] by (auto simp: spec_raw_def clamp_def)

lemma analyzeSentiment_fields:
  "score (analyzeSentiment text) = (spec_raw text + 1) / 2"
  "label (analyzeSentiment text) = sentiment_label (spec_raw text)"
  "confidence (analyzeSentiment text) =
     min (95 / 100) (max (3 / 10) (of_nat (lexicon_totalMatches text) * (1 / 10) + 1 / 2))"
  unfolding analyzeSentiment_unfold Let_def analyzeSentiment_raw by simp_all

text \<open>
  Claim C2. For every text, the score of \<open>analyzeSentiment\<close> is the rescaled raw value
  \<open>(raw + 1) / 2\<close>, where raw is 0 when no lexicon keyword of either polarity occurs (so
  the score is exactly one half) and otherwise the weighted sum (weights 3, 2, 1 for
  strong, moderate, mild; positive added, negative subtracted) over twice the number of
  matches, clamped to [-1, 1]; the confidence is the number of matches times 0.1 plus 0.5,
  clamped to [0.3, 0.95]; and the label is chosen from the raw value by the thresholds
  0.3, 0.1, -0.1 and -0.3.
\<close>

theorem analyzeSentiment_spec:
  "score (analyzeSentiment text) = (spec_raw text + 1) / 2
   \<and> ((\<forall>keyword \<in> set lexicon. \<not> str_includes text keyword)
        \<longrightarrow> score (analyzeSentiment text) = 1 / 2)
   \<and> confidence (analyzeSentiment text)
       = clamp (3 / 10) (95 / 100) (of_nat (lexicon_totalMatches text) * (1 / 10) + 1 / 2)
   \<and> label (analyzeSentiment text) =
       (if spec_raw text > 3 / 10 then ''Very Positive''
        else if spec_raw text > 1 / 10 then ''Positive''
        else if spec_raw text > - (1 / 10) then ''Neutral''
        else if spec_raw text > - (3 / 10) then ''Negative''
        else ''Very Negative'')"
proof -
  have z: "(\<forall>keyword \<in> set lexicon. \<not> str_includes text keyword)
             \<longrightarrow> score (analyzeSentiment text) = 1 / 2"
    unfolding analyzeSentiment_fields by (simp add: spec_raw_def)
  have c: "confidence (analyzeSentiment text)
             = clamp (3 / 10) (95 / 100) (of_nat (lexicon_totalMatches text) * (1 / 10) + 1 / 2)"
    unfolding analyzeSentiment_fields clamp_def by (simp add: max_def min_def)
  show ?thesis
    using z c analyzeSentiment_fields(1,2) [of "text"] unfolding sentiment_label_def by blast
qed

theorem analyzeSentiment_spec_witness:
  "score (analyzeSentiment ''bakery'') = 1 / 2
   \<and> score (analyzeSentiment ''record rise but crisis'') = 2 / 3
   \<and> label (analyzeSentiment ''record rise but crisis'') = ''Very Positive''"
  using analyzeSentiment_spec [of "''bakery''"]
    analyzeSentiment_spec [of "''record rise but crisis''"]
  by code_simp

subsection \<open>The regular expressions of the registry are well formed\<close>

lemma plain_not_backslash: "c = CHR ''.'' \<or> c \<notin> set syntax_characters \<Longrightarrow> c \<noteq> backslash"
  by (auto simp: syntax_characters_def backslash_def)

lemma RegExp_new_plain: "plain_pattern p \<Longrightarrow> RegExp_new p = Inr (map rx_of_char p)"
proof (induction p rule: RegExp_new.induct)
  case 1
  then show ?case by simp
next
  case (2 c)
  then show ?case by (auto simp: plain_pattern_def rx_of_char_def)
next
  case (3 c d ds)
  from 3 have c: "c = CHR ''.'' \<or> c \<notin> set syntax_characters" and r: "plain_pattern (d # ds)"
    by (simp_all add: plain_pattern_def)
  have nb: "c \<noteq> backslash" using c by (rule plain_not_backslash)
  show ?case
  proof (cases "c = CHR ''.''")
    case True
    with nb 3 r show ?thesis by (simp add: rx_cons_def rx_of_char_def)
  next
    case False
    with c have "c \<notin> set syntax_characters" by simp
    with False nb 3 r show ?thesis by (simp add: rx_cons_def rx_of_char_def)
  qed
qed

lemma RegExp_new_plain_boundary:
  "plain_pattern p \<Longrightarrow>
     RegExp_new (p @ [backslash, CHR ''b'']) = Inr (map rx_of_char p @ [WordBoundary])"
proof (induction p)
  case Nil
  then show ?case by (simp add: rx_cons_def)
next
  case (Cons c p)
  from Cons have c: "c = CHR ''.'' \<or> c \<notin> set syntax_characters" and r: "plain_pattern p"
    by (simp_all add: plain_pattern_def)
  have nb: "c \<noteq> backslash" using c by (rule plain_not_backslash)
  obtain d ds where ds: "p @ [backslash, CHR ''b''] = d # ds" by (cases p) auto
  show ?case
  proof (cases "c = CHR ''.''")
    case True
    with nb Cons.IH [OF r] ds show ?thesis
      by (simp add: rx_cons_def rx_of_char_def)
  next
    case False
    with c have "c \<notin> set syntax_characters" by simp
    with False nb Cons.IH [OF r] ds show ?thesis
      by (simp add: rx_cons_def rx_of_char_def)
  qed
qed

lemma count_name_words_plain:
  "list_all plain_pattern ws \<Longrightarrow> count_name_words text ws n = Inr (n + word_counts text ws)"
  by (induction ws arbitrary: n) (simp_all add: RegExp_new_plain word_counts_def)

lemma database_plain_all:
  "list_all (\<lambda>(t, c). plain_pattern (toLowerCase t) \<and> list_all plain_pattern (nameWords (name c)))
     COMPANY_DATABASE"
  by code_simp

lemma database_plain:
  assumes "map_of COMPANY_DATABASE t = Some c"
  shows "plain_pattern (toLowerCase t)" and "list_all plain_pattern (nameWords (name c))"
  using database_plain_all map_of_SomeD [OF assms] by (auto simp: list_all_iff)

lemma countCompanyMentions_database:
  "map_of COMPANY_DATABASE t = Some c \<Longrightarrow>
     countCompanyMentions text t (name c) = Inr (mentions text t (name c))"
  unfolding countCompanyMentions_def mentions_def
  by (simp add: bind_err_def RegExp_new_plain rx_cons_def database_plain count_name_words_plain)

subsection \<open>Word-boundary matches are bare tokens\<close>

lemma match_here_literals:
  "match_here (map Lit token @ [WordBoundary]) prev cs \<noteq> None \<longleftrightarrow>
     startsWith cs token
     \<and> atWordBoundary (if token = [] then prev else Some (last token)) (drop (length token) cs)"
proof (induction token arbitrary: prev cs)
  case Nil
  then show ?case by simp
next
  case (Cons k ks)
  show ?case
  proof (cases cs)
    case Nil
    then show ?thesis by simp
  next
    case (Cons c cs')
    then show ?thesis using Cons.IH [of "Some c" cs'] by auto
  qed
qed

lemma match_here_token:
  assumes "token \<noteq> []" and "list_all isWordChar token"
  shows "match_here (WordBoundary # map Lit token @ [WordBoundary]) prev cs \<noteq> None
           \<longleftrightarrow> tokenHere token prev cs"
proof (cases "startsWith cs token")
  case False
  then have "match_here (map Lit token @ [WordBoundary]) prev cs = None"
    using match_here_literals [of token prev cs] by blast
  with False show ?thesis by (simp add: tokenHere_def)
next
  case True
  from assms obtain k ks where tk: "token = k # ks" and k: "isWordChar k"
    by (cases token) auto
  from True tk obtain cs' where cs: "cs = k # cs'" by (cases cs) auto
  from assms have l: "isWordChar (last token)" by (simp add: list_all_iff)
  have b1: "atWordBoundary prev cs \<longleftrightarrow> \<not> (case prev of None \<Rightarrow> False | Some p \<Rightarrow> isWordChar p)"
    using k cs by (simp add: atWordBoundary_def)
  have b2: "atWordBoundary (Some (last token)) (drop (length token) cs)
              \<longleftrightarrow> \<not> (case drop (length token) cs of [] \<Rightarrow> False | c # _ \<Rightarrow> isWordChar c)"
    using l by (simp add: atWordBoundary_def)
  have "match_here (map Lit token @ [WordBoundary]) prev cs \<noteq> None
          \<longleftrightarrow> atWordBoundary (Some (last token)) (drop (length token) cs)"
    using True assms(1) match_here_literals [of token prev cs] by simp
  then show ?thesis
    using True b1 b2 by (auto simp: tokenHere_def)
qed

lemma match_count_from_positive:
  assumes "\<And>prev cs. match_here re prev cs \<noteq> None \<longleftrightarrow> tokenHere token prev cs"
  shows "match_count_from re 0 prev cs > 0 \<longleftrightarrow> bareTokenFrom token prev cs"
proof (induction cs arbitrary: prev)
  case Nil
  then show ?case using assms [of prev "[]"] by simp
next
  case (Cons c cs)
  show ?case
  proof (cases "match_here re prev (c # cs)")
    case None
    then show ?thesis using assms [of prev "c # cs"] Cons.IH [of "Some c"] by simp
  next
    case (Some n)
    then show ?thesis using assms [of prev "c # cs"] by simp
  qed
qed

lemma match_count_bare_token:
  assumes "token \<noteq> []" and "list_all isWordChar token"
  shows "match_count text (WordBoundary # map Lit token @ [WordBoundary]) > 0
           \<longleftrightarrow> bareTokenOccurs text token"
  unfolding match_count_def bareTokenOccurs_def
  by (rule match_count_from_positive) (rule match_here_token [OF assms])

lemma database_tickers_all:
  "list_all (\<lambda>(t, c). toLowerCase t \<noteq> [] \<and> list_all isWordChar (toLowerCase t)) COMPANY_DATABASE"
  by code_simp

lemma database_ticker:
  assumes "map_of COMPANY_DATABASE t = Some c"
  shows "toLowerCase t \<noteq> []" and "list_all isWordChar (toLowerCase t)"
  using database_tickers_all map_of_SomeD [OF assms] by (auto simp: list_all_iff)

lemma word_chars_literal:
  "list_all isWordChar p \<Longrightarrow> map rx_of_char p = map Lit p \<and> plain_pattern p"
  by (induction p) (auto simp: rx_of_char_def plain_pattern_def isWordChar_def syntax_characters_def backslash_def)

lemma RegExp_new_ticker_token:
  assumes "map_of COMPANY_DATABASE t = Some c"
  shows "RegExp_new (backslash # CHR ''b'' # toLowerCase t @ [backslash, CHR ''b''])
           = Inr (WordBoundary # map Lit (toLowerCase t) @ [WordBoundary])"
proof -
  have w: "list_all isWordChar (toLowerCase t)" using assms by (rule database_ticker)
  have "RegExp_new (toLowerCase t @ [backslash, CHR ''b''])
          = Inr (map Lit (toLowerCase t) @ [WordBoundary])"
    using RegExp_new_plain_boundary [of "toLowerCase t"] word_chars_literal [OF w] by simp
  then show ?thesis by (simp add: rx_cons_def)
qed

lemma calculateNewsRelevance_database:
  assumes "map_of COMPANY_DATABASE t = Some c"
  shows "calculateNewsRelevance t c text = Inr (spec_newsRelevance t c text)"
proof -
  have m: "match_count (toLowerCase text) (WordBoundary # map Lit (toLowerCase t) @ [WordBoundary]) > 0
             \<longleftrightarrow> bareTokenOccurs (toLowerCase text) (toLowerCase t)"
    by (rule match_count_bare_token) (rule database_ticker [OF assms])+
  have e: "length (matched_lower (getCompetitors t) text) > 0
             \<longleftrightarrow> (\<exists>competitor \<in> set (getCompetitors t).
                    str_includes (toLowerCase text) (toLowerCase competitor))"
    by (auto simp: matched_lower_def filter_empty_conv)
  show ?thesis
    unfolding calculateNewsRelevance_def spec_newsRelevance_def RegExp_new_ticker_token [OF assms]
    using m e by (simp add: bind_err_def Let_def del: length_greater_0_conv)
qed

subsection \<open>Impact score\<close>

lemma calculateImpactScore_database:
  assumes "map_of COMPANY_DATABASE t = Some c"
  shows "calculateImpactScore (buildAdvancedPredictionModel t c text sentiment)
           = Inr (impactScore_steps (min 1) t c text sentiment (mentions text t (name c)))"
  unfolding calculateImpactScore_def buildAdvancedPredictionModel_def impactScore_steps_def
  by (simp add: countCompanyMentions_database [OF assms] calculateNewsRelevance_database [OF assms]
      bind_err_def Let_def calculateSectorRelevance_def clamp_def split del: if_split)

text \<open>
  Claim C1, amended. For every ticker of the company registry, the impact score of the
  prediction model is: the sentiment score plus the mention boost
  \<open>min 0.3 (companyMentions * 0.08)\<close>, capped at 1; blended with the sector relevance
  \<open>min 1 (sectorMatches * 0.2)\<close> as \<open>score * 0.6 + sectorRelevance * 0.4\<close>; scaled around
  0.5 by 0.85 for a market cap above one trillion and by 1.15 otherwise; scaled around 0.5
  by the news-relevance multiplier (1, plus 0.3 if the bare ticker token occurs, plus
  \<open>min 0.4 (industryKeywordMatches * 0.08)\<close>, plus 0.15 if a competitor name occurs,
  capped at 2); and clamped to [0, 1].
\<close>

theorem calculateImpactScore_steps:
  "map_of COMPANY_DATABASE t = Some c \<Longrightarrow>
     \<exists>m. countCompanyMentions text t (name c) = Inr m
        \<and> calculateImpactScore (buildAdvancedPredictionModel t c text sentiment)
            = Inr (impactScore_steps (min 1) t c text sentiment m)"
  using countCompanyMentions_database calculateImpactScore_database by blast

theorem calculateImpactScore_steps_witness:
  "map_of COMPANY_DATABASE ''AAPL''
     = Some \<lparr>name = ''Apple Inc.'', sector = ''Technology'', marketCap = 3000000000000\<rparr>
   \<and> (\<exists>m. countCompanyMentions ''apple record'' ''AAPL'' ''Apple Inc.'' = Inr m
        \<and> calculateImpactScore
             (buildAdvancedPredictionModel ''AAPL''
                \<lparr>name = ''Apple Inc.'', sector = ''Technology'', marketCap = 3000000000000\<rparr>
                ''apple record'' (analyzeSentiment ''apple record''))
            = Inr (impactScore_steps (min 1) ''AAPL''
                \<lparr>name = ''Apple Inc.'', sector = ''Technology'', marketCap = 3000000000000\<rparr>
                ''apple record'' (analyzeSentiment ''apple record'') m))"
proof -
  have h: "map_of COMPANY_DATABASE ''AAPL''
     = Some \<lparr>name = ''Apple Inc.'', sector = ''Technology'', marketCap = 3000000000000\<rparr>"
    by code_simp
  show ?thesis
    using h calculateImpactScore_steps [OF h, of "''apple record''" "analyzeSentiment ''apple record''"]
    by simp
qed

text \<open>
  Claim C1 as stated, with no cap after the mention boost, fails for Apple on the text
  \<open>apple record\<close>: the sentiment score is 1, one mention adds 0.08, and the engine caps
  the sum at 1 before it blends.
\<close>

theorem calculateImpactScore_uncapped_counterexample:
  "countCompanyMentions ''apple record'' ''AAPL'' ''Apple Inc.'' = Inr 1
   \<and> calculateImpactScore
        (buildAdvancedPredictionModel ''AAPL''
           \<lparr>name = ''Apple Inc.'', sector = ''Technology'', marketCap = 3000000000000\<rparr>
           ''apple record'' (analyzeSentiment ''apple record''))
       = Inr (117 / 200)
   \<and> impactScore_steps (\<lambda>x. x) ''AAPL''
        \<lparr>name = ''Apple Inc.'', sector = ''Technology'', marketCap = 3000000000000\<rparr>
        ''apple record'' (analyzeSentiment ''apple record'') 1
       = 3129 / 5000
   \<and> (117 / 200 :: number) \<noteq> 3129 / 5000"
  by code_simp

subsection \<open>The model of one registered stock never fails\<close>

lemma bind_err_Inr: "bind_err (Inr x) f = f x"
  by (simp add: bind_err_def)

lemma calculateConfidence_database:
  assumes "map_of COMPANY_DATABASE t = Some c"
  shows "calculateConfidence (buildAdvancedPredictionModel t c text sentiment) g
           = Inr (confidence_value t c text sentiment (g 0), \<lambda>i. g (Suc i))"
  unfolding calculateConfidence_def buildAdvancedPredictionModel_def confidence_value_def
  by (simp add: countCompanyMentions_database [OF assms] bind_err_Inr Let_def Math_random_def
      clamp_def)

lemma confidence_value_bounds:
  "3 / 10 \<le> confidence_value t c text sentiment r"
  "confidence_value t c text sentiment r \<le> 95 / 100"
  by (simp_all add: confidence_value_def clamp_def)

lemma impactScore_steps_bounds:
  "0 \<le> impactScore_steps k t c text sentiment m"
  "impactScore_steps k t c text sentiment m \<le> 1"
  by (simp_all add: impactScore_steps_def clamp_def Let_def)

lemma getModelFactors_database:
  assumes "map_of COMPANY_DATABASE t = Some c"
  shows "getModelFactors (buildAdvancedPredictionModel t c text sentiment)
           = Inr \<lparr>companyMentions = mentions text t (name c),
                  sectorRelevance = calculateSectorRelevance text (sector c),
                  newsRelevance = spec_newsRelevance t c text,
                  volatilityFactor = (if marketCap c > 1000000000000 then 85 / 100 else 115 / 100)\<rparr>"
  unfolding getModelFactors_def buildAdvancedPredictionModel_def
  by (simp add: countCompanyMentions_database [OF assms]
      calculateNewsRelevance_database [OF assms] bind_err_Inr)

lemma generateAdvancedStockReasoning_database:
  assumes "map_of COMPANY_DATABASE t = Some c"
  shows "\<exists>r. generateAdvancedStockReasoning t c text sentiment
                (buildAdvancedPredictionModel t c text sentiment) = Inr r"
  unfolding generateAdvancedStockReasoning_def getModelFactors_database [OF assms] bind_err_Inr
    Let_def
  by (rule exI) (rule refl)

lemma basePrices_nonzero: "list_all (\<lambda>(k, v). v \<noteq> 0) basePrices"
  by (simp add: basePrices_def)

lemma lookup_basePrices:
  "lookup_or basePrices t 100 = (case map_of basePrices t of Some b \<Rightarrow> b | None \<Rightarrow> 100)"
proof (cases "map_of basePrices t")
  case None
  then show ?thesis by (simp add: lookup_or_def)
next
  case (Some b)
  then have "(t, b) \<in> set basePrices" by (rule map_of_SomeD)
  with basePrices_nonzero have "b \<noteq> 0" by (auto simp: list_all_iff)
  with Some show ?thesis by (simp add: lookup_or_def)
qed

lemma generateAdvancedPriceTarget_database:
  assumes "map_of COMPANY_DATABASE t = Some c"
  shows "\<exists>f. (\<forall>g. generateAdvancedPriceTarget t i (buildAdvancedPredictionModel t c text sentiment) g
                   = Inr (Some (f (g 0)), \<lambda>i. g (Suc i)))
           \<and> (\<forall>r. current (f r) = lookup_or basePrices t 100)"
proof -
  let ?pm = "buildAdvancedPredictionModel t c text sentiment"
  let ?f = "\<lambda>r. case generateAdvancedPriceTarget t i ?pm (\<lambda>_. r) of
                   Inr (Some p, _) \<Rightarrow> p"
  have 1: "\<forall>g. generateAdvancedPriceTarget t i ?pm g = Inr (Some (?f (g 0)), \<lambda>i. g (Suc i))"
    unfolding generateAdvancedPriceTarget_def getModelFactors_database [OF assms]
      calculateConfidence_database [OF assms] bind_err_Inr
    by (simp add: Let_def split del: if_split)
  have 2: "\<forall>r. current (?f r) = lookup_or basePrices t 100"
    unfolding generateAdvancedPriceTarget_def getModelFactors_database [OF assms]
      calculateConfidence_database [OF assms] bind_err_Inr
    by (simp add: Let_def split del: if_split)
  from 1 2 have "(\<forall>g. generateAdvancedPriceTarget t i ?pm g = Inr (Some (?f (g 0)), \<lambda>i. g (Suc i)))
           \<and> (\<forall>r. current (?f r) = lookup_or basePrices t 100)" by (rule conjI)
  then show ?thesis by (rule exI [of _ ?f])
qed

lemma stockImpactOf_database:
  assumes "map_of COMPANY_DATABASE t = Some c"
  shows "\<exists>f. (\<forall>g. stockImpactOf t c text sentiment g = Inr (f (g 0) (g 1), \<lambda>i. g (Suc (Suc i))))
           \<and> (\<forall>a b. stockImpact_bounded (f a b) \<and> stockImpact_priced (f a b)
                  \<and> si_ticker (f a b) = t)"
proof -
  let ?pm = "buildAdvancedPredictionModel t c text sentiment"
  let ?i = "impactScore_steps (min 1) t c text sentiment (mentions text t (name c))"
  from generateAdvancedStockReasoning_database [OF assms]
  obtain r where r: "generateAdvancedStockReasoning t c text sentiment ?pm = Inr r" ..
  from generateAdvancedPriceTarget_database [OF assms]
  obtain p where pb: "(\<forall>g. generateAdvancedPriceTarget t ?i ?pm g = Inr (Some (p (g 0)), \<lambda>i. g (Suc i)))
           \<and> (\<forall>r. current (p r) = lookup_or basePrices t 100)" ..
  have p: "generateAdvancedPriceTarget t ?i ?pm g = Inr (Some (p (g 0)), \<lambda>i. g (Suc i))" for g
    by (rule pb [THEN conjunct1, rule_format])
  have b: "current (p x) = lookup_or basePrices t 100" for x
    by (rule pb [THEN conjunct2, rule_format])
  let ?f = "\<lambda>a b. \<lparr>si_ticker = t, si_companyName = name c, si_impactScore = ?i,
                    si_impactLevel = getImpactLevel ?i,
                    si_confidence = confidence_value t c text sentiment a,
                    si_timeframe = determineDynamicTimeframe text ?i (confidence_value t c text sentiment a),
                    si_reasoning = r, si_priceTarget = Some (p b)\<rparr>"
  have 1: "\<forall>g. stockImpactOf t c text sentiment g = Inr (?f (g 0) (g 1), \<lambda>i. g (Suc (Suc i)))"
    unfolding stockImpactOf_def Let_def calculateImpactScore_database [OF assms]
      calculateConfidence_database [OF assms] r p bind_err_Inr
    by (simp split del: if_split)
  have "stockImpact_bounded (?f a b)" for a b
    using assms confidence_value_bounds [of t c "text" sentiment a]
      impactScore_steps_bounds [of "min 1" t c "text" sentiment "mentions text t (name c)"]
    by (simp add: stockImpact_bounded_def)
  moreover have "stockImpact_priced (?f a b)" for a b
    by (simp add: stockImpact_priced_def b lookup_basePrices)
  moreover have "si_ticker (?f a b) = t" for a b
    by simp
  ultimately have 2: "\<forall>a b. stockImpact_bounded (?f a b) \<and> stockImpact_priced (?f a b)
                         \<and> si_ticker (?f a b) = t"
    by blast
  from 1 2 have "(\<forall>g. stockImpactOf t c text sentiment g = Inr (?f (g 0) (g 1), \<lambda>i. g (Suc (Suc i))))
           \<and> (\<forall>a b. stockImpact_bounded (?f a b) \<and> stockImpact_priced (?f a b)
                  \<and> si_ticker (?f a b) = t)" by (rule conjI)
  then show ?thesis by (rule exI [of _ ?f])
qed

subsection \<open>Sorting\<close>

lemma set_sort_insert: "set (sort_insert compare x ys) = insert x (set ys)"
  by (induction ys) auto

lemma set_array_sort: "set (array_sort compare xs) = set xs"
  unfolding array_sort_def by (induction xs) (simp_all add: set_sort_insert)

lemma length_sort_insert: "length (sort_insert compare x ys) = Suc (length ys)"
  by (induction ys) auto

lemma length_array_sort: "length (array_sort compare xs) = length xs"
  unfolding array_sort_def by (induction xs) (simp_all add: length_sort_insert)

lemma sorted_sort_insert:
  fixes key :: "'a \<Rightarrow> number"
  assumes "sorted_wrt (\<lambda>a b. key a \<ge> key b) ys"
  shows "sorted_wrt (\<lambda>a b. key a \<ge> key b) (sort_insert (\<lambda>a b. key b - key a) x ys)"
  using assms
proof (induction ys)
  case Nil
  then show ?case by simp
next
  case (Cons y ys)
  show ?case
  proof (cases "key y - key x \<le> 0")
    case True
    with Cons.prems show ?thesis by (auto intro: order_trans)
  next
    case False
    with Cons show ?thesis by (auto simp: set_sort_insert)
  qed
qed

lemma sorted_array_sort:
  fixes key :: "'a \<Rightarrow> number"
  shows "sorted_wrt (\<lambda>a b. key a \<ge> key b) (array_sort (\<lambda>a b. key b - key a) xs)"
  unfolding array_sort_def by (induction xs) (simp_all add: sorted_sort_insert)

lemma array_sort_same_keys:
  fixes key :: "'a \<Rightarrow> number"
  assumes "\<forall>x \<in> set xs. key x = k"
  shows "array_sort (\<lambda>a b. key b - key a) xs = xs"
  using assms unfolding array_sort_def
proof (induction xs)
  case Nil
  then show ?case by simp
next
  case (Cons x xs)
  then have "foldr (sort_insert (\<lambda>a b. key b - key a)) xs [] = xs" by simp
  with Cons.prems show ?case by (cases xs) auto
qed

subsection \<open>The loop over the relevant stocks\<close>

lemma stockImpacts_loop_total:
  "\<exists>impacts k. stockImpacts_loop stocks text sentiment acc g = Inr (acc @ impacts, \<lambda>i. g (i + k))
       \<and> (\<forall>x \<in> set impacts. stockImpact_bounded x \<and> stockImpact_priced x)
       \<and> map si_ticker impacts = filter (\<lambda>t. map_of COMPANY_DATABASE t \<noteq> None) stocks"
proof (induction stocks arbitrary: acc g)
  case Nil
  have "stockImpacts_loop [] text sentiment acc g = Inr (acc @ [], \<lambda>i. g (i + 0))" by simp
  moreover have "map si_ticker [] = filter (\<lambda>t. map_of COMPANY_DATABASE t \<noteq> None) []" by simp
  ultimately show ?case by (metis empty_iff list.set(1))
next
  case (Cons t stocks)
  show ?case
  proof (cases "map_of COMPANY_DATABASE t")
    case None
    then show ?thesis using Cons.IH [of acc g] by simp
  next
    case (Some c)
    from stockImpactOf_database [OF Some]
    obtain f where fs: "(\<forall>g. stockImpactOf t c text sentiment g = Inr (f (g 0) (g 1), \<lambda>i. g (Suc (Suc i))))
           \<and> (\<forall>a b. stockImpact_bounded (f a b) \<and> stockImpact_priced (f a b)
                  \<and> si_ticker (f a b) = t)" ..
    have f: "stockImpactOf t c text sentiment g = Inr (f (g 0) (g 1), \<lambda>i. g (Suc (Suc i)))"
      by (rule fs [THEN conjunct1, rule_format])
    have ok: "stockImpact_bounded (f (g 0) (g 1))" "stockImpact_priced (f (g 0) (g 1))"
      "si_ticker (f (g 0) (g 1)) = t"
      using fs by blast+
    obtain impacts k where
      l: "stockImpacts_loop stocks text sentiment (acc @ [f (g 0) (g 1)]) (\<lambda>i. g (Suc (Suc i)))
            = Inr ((acc @ [f (g 0) (g 1)]) @ impacts, \<lambda>i. g (Suc (Suc (i + k))))"
      and oks: "\<forall>x \<in> set impacts. stockImpact_bounded x \<and> stockImpact_priced x"
      and ts: "map si_ticker impacts = filter (\<lambda>t. map_of COMPANY_DATABASE t \<noteq> None) stocks"
      using Cons.IH [of "acc @ [f (g 0) (g 1)]" "\<lambda>i. g (Suc (Suc i))"] by blast
    have "stockImpacts_loop (t # stocks) text sentiment acc g
            = Inr (acc @ (f (g 0) (g 1) # impacts), \<lambda>i. g (i + (k + 2)))"
      using Some f l by simp
    moreover have "\<forall>x \<in> set (f (g 0) (g 1) # impacts). stockImpact_bounded x \<and> stockImpact_priced x"
      using ok oks by simp
    moreover have "map si_ticker (f (g 0) (g 1) # impacts)
                     = filter (\<lambda>t. map_of COMPANY_DATABASE t \<noteq> None) (t # stocks)"
      using ok ts Some by simp
    ultimately show ?thesis by blast
  qed
qed

lemma generateStockImpacts_total:
  "\<exists>impacts g'. generateStockImpacts stocks text sentiment g = Inr (impacts, g')
       \<and> (\<forall>x \<in> set impacts. stockImpact_bounded x \<and> stockImpact_priced x)
       \<and> sorted_wrt (\<lambda>a b. \<bar>si_impactScore a - 1 / 2\<bar> \<ge> \<bar>si_impactScore b - 1 / 2\<bar>) impacts
       \<and> set (map si_ticker impacts) = {t \<in> set stocks. map_of COMPANY_DATABASE t \<noteq> None}
       \<and> length impacts = length (filter (\<lambda>t. map_of COMPANY_DATABASE t \<noteq> None) stocks)"
proof -
  obtain impacts k where
    l: "stockImpacts_loop stocks text sentiment [] g = Inr (impacts, \<lambda>i. g (i + k))"
    and ok: "\<forall>x \<in> set impacts. stockImpact_bounded x \<and> stockImpact_priced x"
    and ts: "map si_ticker impacts = filter (\<lambda>t. map_of COMPANY_DATABASE t \<noteq> None) stocks"
    using stockImpacts_loop_total [of stocks "text" sentiment "[]" g] by auto
  let ?s = "array_sort (\<lambda>a b. \<bar>si_impactScore b - 1 / 2\<bar> - \<bar>si_impactScore a - 1 / 2\<bar>) impacts"
  have "generateStockImpacts stocks text sentiment g = Inr (?s, \<lambda>i. g (i + k))"
    unfolding generateStockImpacts_def l bind_err_Inr by simp
  moreover have "\<forall>x \<in> set ?s. stockImpact_bounded x \<and> stockImpact_priced x"
    using ok by (simp add: set_array_sort)
  moreover have "sorted_wrt (\<lambda>a b. \<bar>si_impactScore a - 1 / 2\<bar> \<ge> \<bar>si_impactScore b - 1 / 2\<bar>) ?s"
    by (rule sorted_array_sort [of "\<lambda>a. \<bar>si_impactScore a - 1 / 2\<bar>"])
  moreover have "set (map si_ticker ?s) = {t \<in> set stocks. map_of COMPANY_DATABASE t \<noteq> None}"
    using arg_cong [OF ts, of set] by (simp add: set_array_sort)
  moreover have "length ?s = length (filter (\<lambda>t. map_of COMPANY_DATABASE t \<noteq> None) stocks)"
    using arg_cong [OF ts, of length] by (simp add: length_array_sort)
  ultimately show ?thesis by blast
qed

subsection \<open>Stock identification\<close>

lemma distinct_map_sort_insert:
  "distinct (map f (sort_insert compare x ys)) \<longleftrightarrow> f x \<notin> f ` set ys \<and> distinct (map f ys)"
  by (induction ys) (auto simp: set_sort_insert)

lemma distinct_map_array_sort:
  "distinct (map f (array_sort compare xs)) \<longleftrightarrow> distinct (map f xs)"
proof (induction xs)
  case Nil
  then show ?case by (simp add: array_sort_def)
next
  case (Cons x xs)
  have "array_sort compare (x # xs) = sort_insert compare x (array_sort compare xs)"
    by (simp add: array_sort_def)
  with Cons show ?case by (simp add: distinct_map_sort_insert set_array_sort)
qed

lemma database_distinct: "distinct (map fst COMPANY_DATABASE)"
  by (simp add: COMPANY_DATABASE_def)

lemma engineScore_database:
  "(t, c) \<in> set COMPANY_DATABASE \<Longrightarrow> engineScore text t = relevanceScore text t c"
  using map_of_is_SomeI [OF database_distinct] by (simp add: engineScore_def)

lemma stockRelevanceScores_engineScore:
  "stockRelevanceScores text =
     filter (\<lambda>stock. snd stock > 0) (map (\<lambda>t. (t, engineScore text t)) (map fst COMPANY_DATABASE))"
proof -
  have m: "map (\<lambda>(ticker, company). (ticker, relevanceScore text ticker company)) COMPANY_DATABASE
          = map (\<lambda>t. (t, engineScore text t)) (map fst COMPANY_DATABASE)"
    unfolding map_map by (rule map_cong) (auto simp: engineScore_database)
  show ?thesis unfolding stockRelevanceScores_def m ..
qed

lemma relevant_entries:
  "filter (\<lambda>stock. snd stock \<ge> 2) (stockRelevanceScores text)
     = map (\<lambda>t. (t, engineScore text t)) (engineCandidates text)"
proof -
  have "(0 < engineScore text t \<and> 2 \<le> engineScore text t) = (2 \<le> engineScore text t)" for t
    by auto
  then show ?thesis
    unfolding stockRelevanceScores_engineScore engineCandidates_def
    by (simp add: filter_map o_def)
qed

lemma engineCandidates_distinct: "distinct (engineCandidates text)"
  unfolding engineCandidates_def using database_distinct by (rule distinct_filter)

text \<open>The sorted and thresholded list of \<open>identifyConnectedStocks\<close>.\<close>

lemma sortedStocks_properties:
  "set (filter (\<lambda>stock. snd stock \<ge> 2)
          (array_sort (\<lambda>a b. snd b - snd a) (stockRelevanceScores text)))
     = (\<lambda>t. (t, engineScore text t)) ` set (engineCandidates text)"
  "distinct (map fst (filter (\<lambda>stock. snd stock \<ge> 2)
          (array_sort (\<lambda>a b. snd b - snd a) (stockRelevanceScores text))))"
  "sorted_wrt (\<lambda>a b. snd a \<ge> snd b) (filter (\<lambda>stock. snd stock \<ge> 2)
          (array_sort (\<lambda>a b. snd b - snd a) (stockRelevanceScores text)))"
  "length (filter (\<lambda>stock. snd stock \<ge> 2)
          (array_sort (\<lambda>a b. snd b - snd a) (stockRelevanceScores text)))
     = length (engineCandidates text)"
proof -
  define F where "F = filter (\<lambda>stock. snd stock \<ge> 2)
                 (array_sort (\<lambda>a b. snd b - snd a) (stockRelevanceScores text))"
  have "set F = set (filter (\<lambda>stock. snd stock \<ge> 2) (stockRelevanceScores text))"
    by (simp add: F_def set_array_sort)
  then have s: "set F = (\<lambda>t. (t, engineScore text t)) ` set (engineCandidates text)"
    by (simp add: relevant_entries)
  have "distinct (map fst (stockRelevanceScores text))"
    unfolding stockRelevanceScores_engineScore using database_distinct
    by (simp add: distinct_map_filter o_def)
  then have "distinct (map fst (array_sort (\<lambda>a b. snd b - snd a) (stockRelevanceScores text)))"
    by (simp add: distinct_map_array_sort)
  then have d: "distinct (map fst F)"
    unfolding F_def by (rule distinct_map_filter)
  have o: "sorted_wrt (\<lambda>a b. snd a \<ge> snd b) F"
    unfolding F_def by (intro sorted_wrt_filter sorted_array_sort)
  have "fst ` set F = set (engineCandidates text)"
    unfolding s by force
  then have "card (set (map fst F)) = card (set (engineCandidates text))" by simp
  moreover have "card (set (map fst F)) = length (map fst F)"
    using d by (rule distinct_card)
  moreover have "card (set (engineCandidates text)) = length (engineCandidates text)"
    using engineCandidates_distinct by (rule distinct_card)
  ultimately have l: "length F = length (engineCandidates text)" by simp
  from s show "set (filter (\<lambda>stock. snd stock \<ge> 2)
          (array_sort (\<lambda>a b. snd b - snd a) (stockRelevanceScores text)))
     = (\<lambda>t. (t, engineScore text t)) ` set (engineCandidates text)" by (simp only: F_def)
  from d show "distinct (map fst (filter (\<lambda>stock. snd stock \<ge> 2)
          (array_sort (\<lambda>a b. snd b - snd a) (stockRelevanceScores text))))" by (simp only: F_def)
  from o show "sorted_wrt (\<lambda>a b. snd a \<ge> snd b) (filter (\<lambda>stock. snd stock \<ge> 2)
          (array_sort (\<lambda>a b. snd b - snd a) (stockRelevanceScores text)))" by (simp only: F_def)
  from l show "length (filter (\<lambda>stock. snd stock \<ge> 2)
          (array_sort (\<lambda>a b. snd b - snd a) (stockRelevanceScores text)))
     = length (engineCandidates text)" by (simp only: F_def)
qed

lemma identifyConnectedStocks_unfold:
  "identifyConnectedStocks text =
     (if engineCandidates text \<noteq> []
      then map fst (take 6 (filter (\<lambda>stock. snd stock \<ge> 2)
                 (array_sort (\<lambda>a b. snd b - snd a) (stockRelevanceScores text))))
      else if \<exists>keyword \<in> set broadMarketKeywords. str_includes text keyword
      then [''AAPL'', ''MSFT'', ''GOOGL'', ''AMZN'']
      else [])"
  using sortedStocks_properties(4) [of "text"]
  by (simp add: identifyConnectedStocks_def Let_def list_ex_iff del: length_greater_0_conv)

lemma identifyConnectedStocks_candidates:
  assumes "engineCandidates text \<noteq> []"
  shows "set (identifyConnectedStocks text) \<subseteq> set (engineCandidates text)"
    and "distinct (identifyConnectedStocks text)"
    and "length (identifyConnectedStocks text) = min 6 (length (engineCandidates text))"
    and "sorted_wrt (\<lambda>a b. engineScore text a \<ge> engineScore text b) (identifyConnectedStocks text)"
    and "\<forall>t \<in> set (engineCandidates text) - set (identifyConnectedStocks text).
           \<forall>u \<in> set (identifyConnectedStocks text). engineScore text t \<le> engineScore text u"
proof -
  define F where "F = filter (\<lambda>stock. snd stock \<ge> 2)
                 (array_sort (\<lambda>a b. snd b - snd a) (stockRelevanceScores text))"
  have r: "identifyConnectedStocks text = map fst (take 6 F)"
    using assms by (simp add: identifyConnectedStocks_unfold F_def)
  have s: "set F = (\<lambda>t. (t, engineScore text t)) ` set (engineCandidates text)"
    and d: "distinct (map fst F)"
    and o: "sorted_wrt (\<lambda>a b. snd a \<ge> snd b) F"
    and l: "length F = length (engineCandidates text)"
    unfolding F_def by (rule sortedStocks_properties)+
  have sc: "snd x = engineScore text (fst x)" if "x \<in> set F" for x
    using that s by auto
  show "set (identifyConnectedStocks text) \<subseteq> set (engineCandidates text)"
  proof
    fix t assume "t \<in> set (identifyConnectedStocks text)"
    then obtain x where "x \<in> set (take 6 F)" "t = fst x" using r by auto
    then have "x \<in> set F" by (auto dest: in_set_takeD)
    with s \<open>t = fst x\<close> show "t \<in> set (engineCandidates text)" by auto
  qed
  show "distinct (identifyConnectedStocks text)"
    unfolding r using d by (simp add: take_map [symmetric])
  show "length (identifyConnectedStocks text) = min 6 (length (engineCandidates text))"
    unfolding r using l by (simp add: min.commute)
  have o6: "sorted_wrt (\<lambda>a b. snd a \<ge> snd b) (take 6 F)"
    using o by (rule sorted_wrt_take)
  have "sorted_wrt (\<lambda>a b. engineScore text (fst a) \<ge> engineScore text (fst b)) (take 6 F)"
  proof (rule sorted_wrt_mono_rel [OF _ o6])
    fix x y
    assume "x \<in> set (take 6 F)" "y \<in> set (take 6 F)" "snd x \<ge> snd y"
    moreover from this have "x \<in> set F" "y \<in> set F" by (auto dest: in_set_takeD)
    ultimately show "engineScore text (fst x) \<ge> engineScore text (fst y)"
      using sc by simp
  qed
  then show "sorted_wrt (\<lambda>a b. engineScore text a \<ge> engineScore text b) (identifyConnectedStocks text)"
    unfolding r by (simp add: sorted_wrt_map)
  show "\<forall>t \<in> set (engineCandidates text) - set (identifyConnectedStocks text).
           \<forall>u \<in> set (identifyConnectedStocks text). engineScore text t \<le> engineScore text u"
  proof (intro ballI)
    fix t u
    assume t: "t \<in> set (engineCandidates text) - set (identifyConnectedStocks text)"
      and u: "u \<in> set (identifyConnectedStocks text)"
    from u r obtain y where y: "y \<in> set (take 6 F)" "u = fst y" by auto
    from t s have tF: "(t, engineScore text t) \<in> set F" by auto
    have "(t, engineScore text t) \<notin> set (take 6 F)"
    proof
      assume "(t, engineScore text t) \<in> set (take 6 F)"
      then have "t \<in> set (map fst (take 6 F))" by force
      with t r show False by simp
    qed
    with tF have x: "(t, engineScore text t) \<in> set (drop 6 F)"
      using set_append [of "take 6 F" "drop 6 F"] by auto
    have "sorted_wrt (\<lambda>a b. snd a \<ge> snd b) (take 6 F @ drop 6 F)" using o by simp
    then have "snd y \<ge> snd (t, engineScore text t)"
      using y(1) x unfolding sorted_wrt_append by blast
    moreover have "snd y = engineScore text u"
      using y sc by (auto dest: in_set_takeD)
    ultimately show "engineScore text t \<le> engineScore text u" by simp
  qed
qed

lemma market_specification:
  "list_all (\<lambda>(t, c). spec_relevanceScore ''market'' t c < 2) COMPANY_DATABASE"
  by code_simp

lemma market_engine:
  "identifyConnectedStocks ''market'' = [''MA'']"
  "engineScore ''market'' ''MA'' = 10"
  "\<not> bareTokenOccurs ''market'' (toLowerCase ''MA'')"
  by code_simp+

text \<open>
  Claim C3 at the text \<open>market\<close>. With the relevance score of the specification no
  company reaches 2 there, and the broad-market keyword \<open>market\<close> occurs, so the claim
  asks for the four tickers AAPL, MSFT, GOOGL, AMZN. The engine returns MA alone: the
  substring test of its direct mention finds \<open>ma\<close> inside \<open>market\<close>, which is no
  bare token, and gives Mastercard the score 10.
\<close>

theorem identifyConnectedStocks_market:
  "list_all (\<lambda>(t, c). spec_relevanceScore ''market'' t c < 2) COMPANY_DATABASE
   \<and> str_includes ''market'' ''market''
   \<and> identifyConnectedStocks ''market'' = [''MA'']
   \<and> identifyConnectedStocks ''market'' \<noteq> [''AAPL'', ''MSFT'', ''GOOGL'', ''AMZN'']
   \<and> engineScore ''market'' ''MA'' = 10
   \<and> \<not> bareTokenOccurs ''market'' (toLowerCase ''MA'')"
  using market_specification market_engine by simp

subsection \<open>The orchestrator\<close>

lemma identifyConnectedStocks_database:
  "t \<in> set (identifyConnectedStocks text) \<Longrightarrow> map_of COMPANY_DATABASE t \<noteq> None"
proof (cases "engineCandidates text = []")
  case True
  assume "t \<in> set (identifyConnectedStocks text)"
  with True have "t \<in> set [''AAPL'', ''MSFT'', ''GOOGL'', ''AMZN'']"
    by (simp add: identifyConnectedStocks_unfold split: if_splits)
  then show ?thesis by (auto simp: COMPANY_DATABASE_def)
next
  case False
  assume "t \<in> set (identifyConnectedStocks text)"
  with identifyConnectedStocks_candidates(1) [OF False] have "t \<in> set (engineCandidates text)" by blast
  then have "t \<in> fst ` set COMPANY_DATABASE" by (simp add: engineCandidates_def)
  then show ?thesis by (simp add: map_of_eq_None_iff)
qed

lemma identifyAffectedSectors_keys:
  "set (identifyAffectedSectors text) \<subseteq> fst ` set SECTOR_KEYWORDS"
proof -
  let ?a = "map fst (filter (\<lambda>(sector, keywords). list_ex (\<lambda>keyword. str_includes text keyword) keywords)
                       SECTOR_KEYWORDS)"
  have 1: "set ?a \<subseteq> fst ` set SECTOR_KEYWORDS" by auto
  have 2: "set [''Technology'', ''Financial Services'', ''Healthcare''] \<subseteq> fst ` set SECTOR_KEYWORDS"
    by (simp add: SECTOR_KEYWORDS_def)
  have "set (identifyAffectedSectors text)
          \<subseteq> set (if length ?a = 0 then [''Technology'', ''Financial Services'', ''Healthcare''] else ?a)"
    unfolding identifyAffectedSectors_def Let_def by (rule set_take_subset)
  with 1 2 show ?thesis by (auto split: if_splits)
qed

lemma calculateSectorRelevance_bounds:
  "0 \<le> calculateSectorRelevance text s" "calculateSectorRelevance text s \<le> 1"
  by (simp_all add: calculateSectorRelevance_def)

lemma analyzeSentiment_bounds:
  "0 \<le> score (analyzeSentiment text)" "score (analyzeSentiment text) \<le> 1"
  "3 / 10 \<le> confidence (analyzeSentiment text)" "confidence (analyzeSentiment text) \<le> 95 / 100"
proof -
  have "- 1 \<le> spec_raw text \<and> spec_raw text \<le> 1"
    by (simp add: spec_raw_def clamp_def)
  then show "0 \<le> score (analyzeSentiment text)" "score (analyzeSentiment text) \<le> 1"
    by (simp_all add: analyzeSentiment_fields)
  show "3 / 10 \<le> confidence (analyzeSentiment text)"
    unfolding analyzeSentiment_fields by (rule min.boundedI) simp_all
  show "confidence (analyzeSentiment text) \<le> 95 / 100"
    unfolding analyzeSentiment_fields by (rule min.cobounded1)
qed

lemma generateSectorImpacts_bounds:
  assumes "y \<in> set (generateSectorImpacts sectors text (analyzeSentiment text))"
  shows "ms_name y \<in> set sectors" and "0 \<le> ms_impactScore y" and "ms_impactScore y \<le> 1"
proof -
  from assms obtain s where s: "s \<in> set sectors"
    and y: "ms_name y = s"
       "ms_impactScore y = (score (analyzeSentiment text) + calculateSectorRelevance text s) / 2"
    by (auto simp: generateSectorImpacts_def Let_def)
  from s y show "ms_name y \<in> set sectors" by simp
  show "0 \<le> ms_impactScore y" "ms_impactScore y \<le> 1"
    using y(2) analyzeSentiment_bounds(1,2) [of "text"] calculateSectorRelevance_bounds [of "text" s]
    by simp_all
qed

lemma keyInsights_nonempty: "fst (generateKeyInsights headline text impacts sectors) \<noteq> []"
proof -
  have "take 5 (xs @ [x]) \<noteq> []" for xs :: "string list" and x
    by (cases xs) simp_all
  then show ?thesis
    unfolding generateKeyInsights_def Let_def fst_conv append_assoc [symmetric] by blast
qed

lemma riskFactors_nonempty: "identifyRiskFactors text sentiment \<noteq> []"
proof -
  have "take 4 (xs @ [x]) \<noteq> []" for xs :: "string list" and x
    by (cases xs) simp_all
  then show ?thesis
    unfolding identifyRiskFactors_def append_assoc [symmetric] by blast
qed

lemma opportunities_nonempty: "identifyOpportunities text sentiment \<noteq> []"
proof -
  have "take 4 (xs @ [x]) \<noteq> []" for xs :: "string list" and x
    by (cases xs) simp_all
  then show ?thesis
    unfolding identifyOpportunities_def append_assoc [symmetric] by blast
qed

text \<open>The result of the orchestrator, field by field.\<close>

lemma analyzeArticleImpact_total:
  fixes headline fullText :: string and g :: rng
  defines "T \<equiv> toLowerCase (headline @ '' '' @ fullText)"
  shows "\<exists>res g'. analyzeArticleImpact headline fullText g = Inr (res, g')
     \<and> (\<forall>x \<in> set (stockImpacts res). stockImpact_bounded x \<and> stockImpact_priced x)
     \<and> sorted_wrt (\<lambda>a b. \<bar>si_impactScore a - 1 / 2\<bar> \<ge> \<bar>si_impactScore b - 1 / 2\<bar>) (stockImpacts res)
     \<and> set (map si_ticker (stockImpacts res)) = set (identifyConnectedStocks T)
     \<and> length (stockImpacts res) = length (identifyConnectedStocks T)
     \<and> sectorImpacts res
         = array_sort (\<lambda>a b. \<bar>ms_impactScore b - 1 / 2\<bar> - \<bar>ms_impactScore a - 1 / 2\<bar>)
             (generateSectorImpacts (identifyAffectedSectors T) T (analyzeSentiment T))
     \<and> overallMarketSentiment res = analyzeSentiment T
     \<and> keyInsights res \<noteq> [] \<and> riskFactors res \<noteq> [] \<and> opportunities res \<noteq> []"
proof -
  let ?S = "analyzeSentiment T"
  let ?stocks = "identifyConnectedStocks T"
  obtain impacts g' where
    i: "generateStockImpacts ?stocks T ?S g = Inr (impacts, g')"
    and ok: "\<forall>x \<in> set impacts. stockImpact_bounded x \<and> stockImpact_priced x"
    and so: "sorted_wrt (\<lambda>a b. \<bar>si_impactScore a - 1 / 2\<bar> \<ge> \<bar>si_impactScore b - 1 / 2\<bar>) impacts"
    and ts: "set (map si_ticker impacts) = {t \<in> set ?stocks. map_of COMPANY_DATABASE t \<noteq> None}"
    and ln: "length impacts = length (filter (\<lambda>t. map_of COMPANY_DATABASE t \<noteq> None) ?stocks)"
    using generateStockImpacts_total [of ?stocks T ?S g] by blast
  have all: "filter (\<lambda>t. map_of COMPANY_DATABASE t \<noteq> None) ?stocks = ?stocks"
    by (rule filter_True) (simp add: identifyConnectedStocks_database)
  have ts': "set (map si_ticker impacts) = set ?stocks"
    unfolding ts using identifyConnectedStocks_database [of _ T] by blast
  have ln': "length impacts = length ?stocks"
    unfolding ln all ..
  let ?sec = "generateSectorImpacts (identifyAffectedSectors T) T ?S"
  let ?k = "generateKeyInsights headline T impacts ?sec"
  let ?res = "\<lparr>stockImpacts = impacts, sectorImpacts = snd ?k,
               overallMarketSentiment =
                 \<lparr>score = score ?S, label = label ?S, confidence = confidence ?S\<rparr>,
               keyInsights = fst ?k, riskFactors = identifyRiskFactors T ?S,
               opportunities = identifyOpportunities T ?S,
               timeline = generateTimeline headline T ?S\<rparr>"
  have r: "analyzeArticleImpact headline fullText g = Inr (?res, g')"
    unfolding analyzeArticleImpact_def Let_def T_def [symmetric] i bind_err_Inr
    by (simp add: split_def)
  have sec: "snd ?k = array_sort (\<lambda>a b. \<bar>ms_impactScore b - 1 / 2\<bar> - \<bar>ms_impactScore a - 1 / 2\<bar>) ?sec"
    unfolding generateKeyInsights_def Let_def by simp
  have "(\<forall>x \<in> set (stockImpacts ?res). stockImpact_bounded x \<and> stockImpact_priced x)
     \<and> sorted_wrt (\<lambda>a b. \<bar>si_impactScore a - 1 / 2\<bar> \<ge> \<bar>si_impactScore b - 1 / 2\<bar>) (stockImpacts ?res)
     \<and> set (map si_ticker (stockImpacts ?res)) = set ?stocks
     \<and> length (stockImpacts ?res) = length ?stocks
     \<and> sectorImpacts ?res
         = array_sort (\<lambda>a b. \<bar>ms_impactScore b - 1 / 2\<bar> - \<bar>ms_impactScore a - 1 / 2\<bar>) ?sec
     \<and> overallMarketSentiment ?res = ?S
     \<and> keyInsights ?res \<noteq> [] \<and> riskFactors ?res \<noteq> [] \<and> opportunities ?res \<noteq> []"
    using ok so ts' ln' sec
    by (simp add: keyInsights_nonempty riskFactors_nonempty opportunities_nonempty)
  with r show ?thesis by blast
qed

subsection \<open>An article that names two tickers\<close>

lemma example_text:
  "toLowerCase (''AAPL MSFT'' @ '' '' @ []) = ''aapl msft ''"
  "engineCandidates ''aapl msft '' = [''AAPL'', ''MSFT'']"
  by code_simp+

lemma identifyAffectedSectors_nonempty: "identifyAffectedSectors text \<noteq> []"
  by (simp add: identifyAffectedSectors_def Let_def)

lemma example_result:
  "\<exists>res g'. analyzeArticleImpact ''AAPL MSFT'' [] g = Inr (res, g')
      \<and> length (stockImpacts res) = 2 \<and> sectorImpacts res \<noteq> []"
proof -
  let ?T = "''aapl msft ''"
  obtain res g' where r: "analyzeArticleImpact ''AAPL MSFT'' [] g = Inr (res, g')"
    and l: "length (stockImpacts res) = length (identifyConnectedStocks ?T)"
    and s: "sectorImpacts res
         = array_sort (\<lambda>a b. \<bar>ms_impactScore b - 1 / 2\<bar> - \<bar>ms_impactScore a - 1 / 2\<bar>)
             (generateSectorImpacts (identifyAffectedSectors ?T) ?T (analyzeSentiment ?T))"
    using analyzeArticleImpact_total [of "''AAPL MSFT''" "[]" g] unfolding example_text by blast
  have "engineCandidates ?T \<noteq> []" by (simp add: example_text)
  from identifyConnectedStocks_candidates(3) [OF this]
  have "length (identifyConnectedStocks ?T) = 2" by (simp add: example_text)
  with l have 1: "length (stockImpacts res) = 2" by simp
  have "length (sectorImpacts res) = length (identifyAffectedSectors ?T)"
    unfolding s by (simp add: length_array_sort generateSectorImpacts_def)
  then have 2: "sectorImpacts res \<noteq> []"
    using identifyAffectedSectors_nonempty [of ?T] by auto
  from r 1 2 show ?thesis by blast
qed

subsection \<open>Invariants of the result\<close>

text \<open>
  Claim C4. For every headline and full text, and whatever the random source draws, the
  engine returns a result in which every stock impact has a ticker of the company
  registry, an impact score in [0, 1] and a confidence in [0.3, 0.95], every sector impact
  has a name that is a key of the sector keyword table and an impact score in [0, 1], and
  the overall sentiment has a score in [0, 1] and a confidence in [0.3, 0.95].
\<close>

theorem analyzeArticleImpact_invariants:
  "\<exists>res g'. analyzeArticleImpact headline fullText g = Inr (res, g')
     \<and> (\<forall>x \<in> set (stockImpacts res).
           si_ticker x \<in> fst ` set COMPANY_DATABASE
           \<and> 0 \<le> si_impactScore x \<and> si_impactScore x \<le> 1
           \<and> 3 / 10 \<le> si_confidence x \<and> si_confidence x \<le> 95 / 100)
     \<and> (\<forall>y \<in> set (sectorImpacts res).
           ms_name y \<in> fst ` set SECTOR_KEYWORDS
           \<and> 0 \<le> ms_impactScore y \<and> ms_impactScore y \<le> 1)
     \<and> 0 \<le> score (overallMarketSentiment res) \<and> score (overallMarketSentiment res) \<le> 1
     \<and> 3 / 10 \<le> confidence (overallMarketSentiment res)
     \<and> confidence (overallMarketSentiment res) \<le> 95 / 100"
proof -
  define T where "T = toLowerCase (headline @ '' '' @ fullText)"
  obtain res g' where r: "analyzeArticleImpact headline fullText g = Inr (res, g')"
    and b: "\<forall>x \<in> set (stockImpacts res). stockImpact_bounded x \<and> stockImpact_priced x"
    and s: "sectorImpacts res
         = array_sort (\<lambda>a b. \<bar>ms_impactScore b - 1 / 2\<bar> - \<bar>ms_impactScore a - 1 / 2\<bar>)
             (generateSectorImpacts (identifyAffectedSectors T) T (analyzeSentiment T))"
    and m: "overallMarketSentiment res = analyzeSentiment T"
    using analyzeArticleImpact_total [of headline fullText g] unfolding T_def by blast
  have 1: "\<forall>x \<in> set (stockImpacts res).
           si_ticker x \<in> fst ` set COMPANY_DATABASE
           \<and> 0 \<le> si_impactScore x \<and> si_impactScore x \<le> 1
           \<and> 3 / 10 \<le> si_confidence x \<and> si_confidence x \<le> 95 / 100"
    using b by (auto simp: stockImpact_bounded_def map_of_eq_None_iff)
  have 2: "\<forall>y \<in> set (sectorImpacts res).
           ms_name y \<in> fst ` set SECTOR_KEYWORDS
           \<and> 0 \<le> ms_impactScore y \<and> ms_impactScore y \<le> 1"
  proof
    fix y assume "y \<in> set (sectorImpacts res)"
    then have y: "y \<in> set (generateSectorImpacts (identifyAffectedSectors T) T (analyzeSentiment T))"
      by (simp add: s set_array_sort)
    from generateSectorImpacts_bounds [OF y] identifyAffectedSectors_keys [of T]
    show "ms_name y \<in> fst ` set SECTOR_KEYWORDS \<and> 0 \<le> ms_impactScore y \<and> ms_impactScore y \<le> 1"
      by blast
  qed
  have 3: "0 \<le> score (overallMarketSentiment res) \<and> score (overallMarketSentiment res) \<le> 1
     \<and> 3 / 10 \<le> confidence (overallMarketSentiment res)
     \<and> confidence (overallMarketSentiment res) \<le> 95 / 100"
    unfolding m using analyzeSentiment_bounds [of T] by blast
  from r 1 2 3 show ?thesis by blast
qed

theorem analyzeArticleImpact_invariants_witness:
  "\<exists>res g'. analyzeArticleImpact ''AAPL MSFT'' [] (\<lambda>_. 1 / 2) = Inr (res, g')
     \<and> stockImpacts res \<noteq> [] \<and> sectorImpacts res \<noteq> []
     \<and> (\<forall>x \<in> set (stockImpacts res).
           si_ticker x \<in> fst ` set COMPANY_DATABASE
           \<and> 0 \<le> si_impactScore x \<and> si_impactScore x \<le> 1
           \<and> 3 / 10 \<le> si_confidence x \<and> si_confidence x \<le> 95 / 100)
     \<and> (\<forall>y \<in> set (sectorImpacts res).
           ms_name y \<in> fst ` set SECTOR_KEYWORDS
           \<and> 0 \<le> ms_impactScore y \<and> ms_impactScore y \<le> 1)"
proof -
  obtain res g' where r: "analyzeArticleImpact ''AAPL MSFT'' [] (\<lambda>_. 1 / 2) = Inr (res, g')"
    and p: "\<forall>x \<in> set (stockImpacts res).
           si_ticker x \<in> fst ` set COMPANY_DATABASE
           \<and> 0 \<le> si_impactScore x \<and> si_impactScore x \<le> 1
           \<and> 3 / 10 \<le> si_confidence x \<and> si_confidence x \<le> 95 / 100"
       "\<forall>y \<in> set (sectorImpacts res).
           ms_name y \<in> fst ` set SECTOR_KEYWORDS
           \<and> 0 \<le> ms_impactScore y \<and> ms_impactScore y \<le> 1"
    using analyzeArticleImpact_invariants [of "''AAPL MSFT''" "[]" "\<lambda>_. 1 / 2"] by blast
  obtain res' g'' where r': "analyzeArticleImpact ''AAPL MSFT'' [] (\<lambda>_. 1 / 2) = Inr (res', g'')"
    and q: "length (stockImpacts res') = 2" "sectorImpacts res' \<noteq> []"
    using example_result [of "\<lambda>_. 1 / 2"] by blast
  from r r' have "res' = res" by simp
  with q have "stockImpacts res \<noteq> []" "sectorImpacts res \<noteq> []" by auto
  with r p show ?thesis by blast
qed

subsection \<open>Order of the stock impacts\<close>

text \<open>
  Claim C7. For every input, the stock impacts of the result are sorted by descending
  distance of the impact score from 0.5: for any two positions \<open>i < j\<close> of the list, the
  distance at \<open>i\<close> is at least the distance at \<open>j\<close>.
\<close>

theorem stockImpacts_sorted:
  "\<exists>res g'. analyzeArticleImpact headline fullText g = Inr (res, g')
     \<and> (\<forall>i j. i < j \<and> j < length (stockImpacts res) \<longrightarrow>
           \<bar>si_impactScore (stockImpacts res ! i) - 1 / 2\<bar>
             \<ge> \<bar>si_impactScore (stockImpacts res ! j) - 1 / 2\<bar>)"
proof -
  obtain res g' where r: "analyzeArticleImpact headline fullText g = Inr (res, g')"
    and s: "sorted_wrt (\<lambda>a b. \<bar>si_impactScore a - 1 / 2\<bar> \<ge> \<bar>si_impactScore b - 1 / 2\<bar>)
              (stockImpacts res)"
    using analyzeArticleImpact_total [of headline fullText g] by blast
  from s have "\<forall>i j. i < j \<and> j < length (stockImpacts res) \<longrightarrow>
           \<bar>si_impactScore (stockImpacts res ! i) - 1 / 2\<bar>
             \<ge> \<bar>si_impactScore (stockImpacts res ! j) - 1 / 2\<bar>"
    by (simp add: sorted_wrt_iff_nth_less)
  with r show ?thesis by blast
qed

theorem stockImpacts_sorted_witness:
  "\<exists>res g'. analyzeArticleImpact ''AAPL MSFT'' [] (\<lambda>_. 1 / 2) = Inr (res, g')
     \<and> (0::nat) < 1 \<and> 1 < length (stockImpacts res)
     \<and> \<bar>si_impactScore (stockImpacts res ! 0) - 1 / 2\<bar>
          \<ge> \<bar>si_impactScore (stockImpacts res ! 1) - 1 / 2\<bar>"
proof -
  obtain res g' where r: "analyzeArticleImpact ''AAPL MSFT'' [] (\<lambda>_. 1 / 2) = Inr (res, g')"
    and p: "\<forall>i j. i < j \<and> j < length (stockImpacts res) \<longrightarrow>
           \<bar>si_impactScore (stockImpacts res ! i) - 1 / 2\<bar>
             \<ge> \<bar>si_impactScore (stockImpacts res ! j) - 1 / 2\<bar>"
    using stockImpacts_sorted [of "''AAPL MSFT''" "[]" "\<lambda>_. 1 / 2"] by blast
  obtain res' g'' where r': "analyzeArticleImpact ''AAPL MSFT'' [] (\<lambda>_. 1 / 2) = Inr (res', g'')"
    and q: "length (stockImpacts res') = 2"
    using example_result [of "\<lambda>_. 1 / 2"] by blast
  from r r' have "res' = res" by simp
  with q have l: "1 < length (stockImpacts res)" by simp
  with p have "\<bar>si_impactScore (stockImpacts res ! 0) - 1 / 2\<bar>
          \<ge> \<bar>si_impactScore (stockImpacts res ! 1) - 1 / 2\<bar>" by simp
  with r l show ?thesis by auto
qed

subsection \<open>Price target\<close>

text \<open>
  Claim C10. Every stock impact the engine produces carries a price target, and the
  \<open>current\<close> value of the price target is the entry of the ticker in the base-price
  table, or 100 for a ticker absent from the table.
\<close>

theorem priceTarget_current:
  "\<exists>res g'. analyzeArticleImpact headline fullText g = Inr (res, g')
      \<and> (\<forall>x \<in> set (stockImpacts res).
            \<exists>p. si_priceTarget x = Some p
               \<and> current p = (case map_of basePrices (si_ticker x) of Some b \<Rightarrow> b | None \<Rightarrow> 100))"
proof -
  obtain res g' where r: "analyzeArticleImpact headline fullText g = Inr (res, g')"
    and b: "\<forall>x \<in> set (stockImpacts res). stockImpact_bounded x \<and> stockImpact_priced x"
    using analyzeArticleImpact_total [of headline fullText g] by blast
  have "\<forall>x \<in> set (stockImpacts res).
            \<exists>p. si_priceTarget x = Some p
               \<and> current p = (case map_of basePrices (si_ticker x) of Some b \<Rightarrow> b | None \<Rightarrow> 100)"
  proof
    fix x assume "x \<in> set (stockImpacts res)"
    with b have "stockImpact_priced x" by blast
    then show "\<exists>p. si_priceTarget x = Some p
               \<and> current p = (case map_of basePrices (si_ticker x) of Some b \<Rightarrow> b | None \<Rightarrow> 100)"
      by (cases "si_priceTarget x") (simp_all add: stockImpact_priced_def)
  qed
  with r show ?thesis by blast
qed

theorem priceTarget_current_witness:
  "\<exists>res g'. analyzeArticleImpact ''AAPL MSFT'' [] (\<lambda>_. 1 / 2) = Inr (res, g')
      \<and> stockImpacts res \<noteq> []
      \<and> (\<forall>x \<in> set (stockImpacts res).
            \<exists>p. si_priceTarget x = Some p
               \<and> current p = (case map_of basePrices (si_ticker x) of Some b \<Rightarrow> b | None \<Rightarrow> 100))"
proof -
  obtain res g' where r: "analyzeArticleImpact ''AAPL MSFT'' [] (\<lambda>_. 1 / 2) = Inr (res, g')"
    and p: "\<forall>x \<in> set (stockImpacts res).
            \<exists>p. si_priceTarget x = Some p
               \<and> current p = (case map_of basePrices (si_ticker x) of Some b \<Rightarrow> b | None \<Rightarrow> 100)"
    using priceTarget_current [of "''AAPL MSFT''" "[]" "\<lambda>_. 1 / 2"] by blast
  obtain res' g'' where r': "analyzeArticleImpact ''AAPL MSFT'' [] (\<lambda>_. 1 / 2) = Inr (res', g'')"
    and q: "length (stockImpacts res') = 2"
    using example_result [of "\<lambda>_. 1 / 2"] by blast
  from r r' have "res' = res" by simp
  with q have "stockImpacts res \<noteq> []" by auto
  with r p show ?thesis by blast
qed

subsection \<open>Timeframe\<close>

text \<open>
  Claim C8. The timeframe rules apply in priority order, the first match winning: a text
  with an immediate keyword is Immediate, also when long-horizon keywords are present, so a
  text containing both \<open>breaking\<close> and \<open>long-term\<close> is Immediate; otherwise a short-term
  keyword, or an impact score more than 0.25 from 0.5 with a confidence above 0.8, gives
  Short-term; otherwise a long-horizon or structural-change keyword gives Long-term;
  otherwise the timeframe is Short-term if the confidence is above 0.7 and Medium-term if
  not.
\<close>

theorem determineDynamicTimeframe_priority:
  fixes t :: string and impact conf :: number
  defines "has \<equiv> \<lambda>keywords. \<exists>keyword \<in> set keywords. str_includes (toLowerCase t) keyword"
  defines "imm \<equiv> has [''immediate'', ''today'', ''breaking'', ''urgent'', ''now'', ''just announced'']"
  defines "short \<equiv> has [''quarter'', ''earnings'', ''this week'', ''next week'', ''monthly'']
                      \<or> (\<bar>impact - 1 / 2\<bar> > 25 / 100 \<and> conf > 8 / 10)"
  defines "long \<equiv> has [''year'', ''years'', ''long-term'', ''strategic'', ''future'', ''roadmap'',
                         ''vision'']
                     \<or> has [''regulation'', ''policy'', ''transformation'']"
  shows "(imm \<longrightarrow> determineDynamicTimeframe t impact conf = Immediate)
     \<and> (str_includes (toLowerCase t) ''breaking'' \<and> str_includes (toLowerCase t) ''long-term''
          \<longrightarrow> determineDynamicTimeframe t impact conf = Immediate)
     \<and> (\<not> imm \<and> short \<longrightarrow> determineDynamicTimeframe t impact conf = ShortTerm)
     \<and> (\<not> imm \<and> \<not> short \<and> long \<longrightarrow> determineDynamicTimeframe t impact conf = LongTerm)
     \<and> (\<not> imm \<and> \<not> short \<and> \<not> long \<longrightarrow>
           determineDynamicTimeframe t impact conf = (if conf > 7 / 10 then ShortTerm else MediumTerm))"
  unfolding determineDynamicTimeframe_def Let_def list_ex_iff imm_def short_def long_def has_def
  by auto

theorem determineDynamicTimeframe_priority_witness:
  "str_includes (toLowerCase ''Breaking: long-term plan'') ''breaking''
   \<and> str_includes (toLowerCase ''Breaking: long-term plan'') ''long-term''
   \<and> determineDynamicTimeframe ''Breaking: long-term plan'' (1 / 2) (1 / 2) = Immediate
   \<and> determineDynamicTimeframe ''Earnings call'' (1 / 2) (1 / 2) = ShortTerm
   \<and> determineDynamicTimeframe ''Strategic plan'' (1 / 2) (1 / 2) = LongTerm
   \<and> determineDynamicTimeframe ''Bakery'' (1 / 2) (1 / 2) = MediumTerm"
  using determineDynamicTimeframe_priority [of "''Breaking: long-term plan''" "1 / 2" "1 / 2"]
    determineDynamicTimeframe_priority [of "''Earnings call''" "1 / 2" "1 / 2"]
    determineDynamicTimeframe_priority [of "''Strategic plan''" "1 / 2" "1 / 2"]
    determineDynamicTimeframe_priority [of "''Bakery''" "1 / 2" "1 / 2"]
  by code_simp

subsection \<open>The empty article\<close>

lemma empty_article:
  "toLowerCase ([] @ '' '' @ []) = '' ''"
  "engineCandidates '' '' = []"
  "\<not> (\<exists>keyword \<in> set broadMarketKeywords. str_includes '' '' keyword)"
  "identifyAffectedSectors '' '' = [''Technology'', ''Financial Services'', ''Healthcare'']"
  "analyzeSentiment '' '' = \<lparr>score = 1 / 2, label = ''Neutral'', confidence = 1 / 2\<rparr>"
  "calculateSectorRelevance '' '' ''Technology'' = 0"
  "calculateSectorRelevance '' '' ''Financial Services'' = 0"
  "calculateSectorRelevance '' '' ''Healthcare'' = 0"
  by code_simp+

lemma empty_article_sectors:
  "map ms_name
     (array_sort (\<lambda>a b. \<bar>ms_impactScore b - 1 / 2\<bar> - \<bar>ms_impactScore a - 1 / 2\<bar>)
        (generateSectorImpacts (identifyAffectedSectors '' '') '' '' (analyzeSentiment '' '')))
   = [''Technology'', ''Financial Services'', ''Healthcare'']"
proof -
  let ?S = "generateSectorImpacts (identifyAffectedSectors '' '') '' '' (analyzeSentiment '' '')"
  have k: "\<forall>x \<in> set ?S. \<bar>ms_impactScore x - 1 / 2\<bar> = 1 / 4"
    by (simp add: generateSectorImpacts_def Let_def empty_article)
  have n: "map ms_name ?S = [''Technology'', ''Financial Services'', ''Healthcare'']"
    by (simp add: generateSectorImpacts_def Let_def empty_article(4))
  show ?thesis
    unfolding array_sort_same_keys [of ?S "\<lambda>a. \<bar>ms_impactScore a - 1 / 2\<bar>", OF k] by (rule n)
qed

text \<open>
  Claim C5. For the empty headline and the empty body the engine returns, without an
  error, no stock impacts, the sector impacts of Technology, Financial Services and
  Healthcare in this order, an overall sentiment of score 0.5 and label Neutral, and
  non-empty key insights, risk factors and opportunities; and for every headline, body
  and random source the engine returns a result, never an error.
\<close>

theorem analyzeArticleImpact_empty:
  "(\<exists>res g'. analyzeArticleImpact [] [] g = Inr (res, g')
      \<and> stockImpacts res = []
      \<and> map ms_name (sectorImpacts res) = [''Technology'', ''Financial Services'', ''Healthcare'']
      \<and> score (overallMarketSentiment res) = 1 / 2
      \<and> label (overallMarketSentiment res) = ''Neutral''
      \<and> keyInsights res \<noteq> [] \<and> riskFactors res \<noteq> [] \<and> opportunities res \<noteq> [])
   \<and> (\<forall>headline fullText h. \<exists>res h'. analyzeArticleImpact headline fullText h = Inr (res, h'))"
proof
  obtain res g' where r: "analyzeArticleImpact [] [] g = Inr (res, g')"
    and l: "length (stockImpacts res) = length (identifyConnectedStocks '' '')"
    and s: "sectorImpacts res
         = array_sort (\<lambda>a b. \<bar>ms_impactScore b - 1 / 2\<bar> - \<bar>ms_impactScore a - 1 / 2\<bar>)
             (generateSectorImpacts (identifyAffectedSectors '' '') '' '' (analyzeSentiment '' ''))"
    and m: "overallMarketSentiment res = analyzeSentiment '' ''"
    and n: "keyInsights res \<noteq> []" "riskFactors res \<noteq> []" "opportunities res \<noteq> []"
    using analyzeArticleImpact_total [of "[]" "[]" g] unfolding empty_article(1) by blast
  have "identifyConnectedStocks '' '' = []"
    unfolding identifyConnectedStocks_unfold using empty_article(2,3) by simp
  with l have 1: "stockImpacts res = []" by simp
  have 2: "map ms_name (sectorImpacts res) = [''Technology'', ''Financial Services'', ''Healthcare'']"
    unfolding s by (rule empty_article_sectors)
  have 3: "score (overallMarketSentiment res) = 1 / 2" "label (overallMarketSentiment res) = ''Neutral''"
    unfolding m empty_article(5) by simp_all
  from r 1 2 3 n show "\<exists>res g'. analyzeArticleImpact [] [] g = Inr (res, g')
      \<and> stockImpacts res = []
      \<and> map ms_name (sectorImpacts res) = [''Technology'', ''Financial Services'', ''Healthcare'']
      \<and> score (overallMarketSentiment res) = 1 / 2
      \<and> label (overallMarketSentiment res) = ''Neutral''
      \<and> keyInsights res \<noteq> [] \<and> riskFactors res \<noteq> [] \<and> opportunities res \<noteq> []"
    by (intro exI [of _ res] exI [of _ g'] conjI)
next
  show "\<forall>headline fullText h. \<exists>res h'. analyzeArticleImpact headline fullText h = Inr (res, h')"
    using analyzeArticleImpact_total by blast
qed

subsection \<open>Direct ticker mention\<close>

text \<open>
  Claim C6 at the text \<open>heavy\<close> and the ticker V of Visa: the ticker occurs only inside
  a longer word, there is no dollar sign in the text, and the engine adds the bonus of 10
  (the relevance score of Visa, which has no other signal in this text, is 10).
\<close>

theorem directTickerMention_inside_word:
  "directTickerMention ''heavy'' ''V''
   \<and> \<not> bareTokenOccurs ''heavy'' (toLowerCase ''V'')
   \<and> \<not> str_includes ''heavy'' ''$''
   \<and> relevanceScore ''heavy'' ''V''
        \<lparr>name = ''Visa Inc.'', sector = ''Financial Services'', marketCap = 500000000000\<rparr> = 10
   \<and> match_count (toLowerCase ''heavy'') [WordBoundary, Lit CHR ''v'', WordBoundary] = 0"
  by code_simp

subsection \<open>The result depends on the draws the engine makes only\<close>

lemma stockImpacts_loop_agree:
  assumes "\<forall>i < 2 * length stocks. g1 i = g2 i"
  shows "map_sum id fst (stockImpacts_loop stocks text sentiment acc g1)
           = map_sum id fst (stockImpacts_loop stocks text sentiment acc g2)"
  using assms
proof (induction stocks arbitrary: acc g1 g2)
  case Nil
  then show ?case by simp
next
  case (Cons t stocks)
  show ?case
  proof (cases "map_of COMPANY_DATABASE t")
    case None
    have "\<forall>i < 2 * length stocks. g1 i = g2 i" using Cons.prems by simp
    from Cons.IH [OF this] None show ?thesis by simp
  next
    case (Some c)
    from stockImpactOf_database [OF Some]
    obtain f where fs: "(\<forall>g. stockImpactOf t c text sentiment g = Inr (f (g 0) (g 1), \<lambda>i. g (Suc (Suc i))))
           \<and> (\<forall>a b. stockImpact_bounded (f a b) \<and> stockImpact_priced (f a b)
                  \<and> si_ticker (f a b) = t)" ..
    have f: "stockImpactOf t c text sentiment g = Inr (f (g 0) (g 1), \<lambda>i. g (Suc (Suc i)))" for g
      by (rule fs [THEN conjunct1, rule_format])
    have e: "g1 0 = g2 0" "g1 (Suc 0) = g2 (Suc 0)" using Cons.prems by simp_all
    have "\<forall>i < 2 * length stocks. g1 (Suc (Suc i)) = g2 (Suc (Suc i))" using Cons.prems by simp
    from Cons.IH [of "\<lambda>i. g1 (Suc (Suc i))" "\<lambda>i. g2 (Suc (Suc i))", OF this]
    show ?thesis using Some by (simp add: f e)
  qed
qed

lemma map_sum_bind_err:
  "map_sum id fst (bind_err m (\<lambda>(x, g'). Inr (F x, g'))) = map_sum id F (map_sum id fst m)"
  by (cases m) (auto simp: bind_err_def)

lemma generateStockImpacts_agree:
  assumes "\<forall>i < 2 * length stocks. g1 i = g2 i"
  shows "map_sum id fst (generateStockImpacts stocks text sentiment g1)
           = map_sum id fst (generateStockImpacts stocks text sentiment g2)"
  unfolding generateStockImpacts_def map_sum_bind_err
  using stockImpacts_loop_agree [OF assms] by simp

lemma analyzeArticleImpact_agree:
  assumes "\<forall>i < 2 * length (identifyConnectedStocks (toLowerCase (headline @ '' '' @ fullText))).
             g1 i = g2 i"
  shows "map_sum id fst (analyzeArticleImpact headline fullText g1)
           = map_sum id fst (analyzeArticleImpact headline fullText g2)"
proof -
  define T where "T = toLowerCase (headline @ '' '' @ fullText)"
  define R where "R = (\<lambda>impacts.
      \<lparr>stockImpacts = impacts,
       sectorImpacts = snd (generateKeyInsights headline T impacts
          (generateSectorImpacts (identifyAffectedSectors T) T (analyzeSentiment T))),
       overallMarketSentiment =
         \<lparr>score = score (analyzeSentiment T), label = label (analyzeSentiment T),
          confidence = confidence (analyzeSentiment T)\<rparr>,
       keyInsights = fst (generateKeyInsights headline T impacts
          (generateSectorImpacts (identifyAffectedSectors T) T (analyzeSentiment T))),
       riskFactors = identifyRiskFactors T (analyzeSentiment T),
       opportunities = identifyOpportunities T (analyzeSentiment T),
       timeline = generateTimeline headline T (analyzeSentiment T)\<rparr>)"
  have u: "analyzeArticleImpact headline fullText g
             = bind_err (generateStockImpacts (identifyConnectedStocks T) T (analyzeSentiment T) g)
                 (\<lambda>(x, g'). Inr (R x, g'))" for g
    unfolding analyzeArticleImpact_def Let_def T_def [symmetric] R_def
    by (simp add: split_def)
  show ?thesis
    unfolding u map_sum_bind_err
    using generateStockImpacts_agree [of "identifyConnectedStocks T" g1 g2 T "analyzeSentiment T"] assms
    unfolding T_def by simp
qed

end
